theory Spec2Isabelle
  imports Main "HOL-Library.Sublist"
begin

section \<open>JavaScript values and errors\<close>

text \<open>
  The payloads are parsed JSON. A property of a payload object is absent (reading it
  gives \<open>undefined\<close>), \<open>null\<close>, or a value of the type the sending platform
  documents for it: a string, an integer, a boolean, an object or an array. A property
  holding a value of another type is outside this model. Strings are lists of code
  units; \<open>length\<close>, \<open>take\<close> and \<open>drop\<close> count what JavaScript's \<open>length\<close> and
  \<open>substring\<close> count.
\<close>

datatype 'a opt = Undefined | Null | Val 'a

text \<open>
  The error of a failed HTTP call: its \<open>message\<close>, \<open>response?.data?.message\<close>, and
  the text \<open>JSON.stringify(response?.data || {}, null, 2)\<close>.
\<close>

record axios_error =
  ax_message :: string
  ax_data_message :: "string opt"
  ax_data_text :: string

datatype js_error =
    TypeError
  | RangeError
  | ReferenceError
  | AxiosError axios_error

type_synonym 'a js = "js_error + 'a"

definition bind_js :: "'a js \<Rightarrow> ('a \<Rightarrow> 'b js) \<Rightarrow> 'b js" where
  "bind_js m f = (case m of Inl e \<Rightarrow> Inl e | Inr v \<Rightarrow> f v)"

text \<open>\<open>o.f\<close>: reading a property of \<open>undefined\<close> or \<open>null\<close> throws a TypeError.\<close>

fun rd :: "'a opt \<Rightarrow> ('a \<Rightarrow> 'b) \<Rightarrow> 'b js" where
  "rd Undefined f = Inl TypeError"
| "rd Null f = Inl TypeError"
| "rd (Val r) f = Inr (f r)"

text \<open>Truthiness of an object, a string and a boolean.\<close>

fun truthy_obj :: "'a opt \<Rightarrow> bool" where
  "truthy_obj (Val r) = True"
| "truthy_obj _ = False"

fun truthy_str :: "string opt \<Rightarrow> bool" where
  "truthy_str (Val s) = (s \<noteq> [])"
| "truthy_str _ = False"

fun truthy_bool :: "bool opt \<Rightarrow> bool" where
  "truthy_bool (Val b) = b"
| "truthy_bool _ = False"

text \<open>Decimal rendering of a number inside a template literal.\<close>

fun show_nat :: "nat \<Rightarrow> string" where
  "show_nat n = (if n < 10 then [''0123456789'' ! n]
                 else show_nat (n div 10) @ [''0123456789'' ! (n mod 10)])"

declare show_nat.simps [simp del]

definition show_int :: "int \<Rightarrow> string" where
  "show_int i = (if i < 0 then CHR ''-'' # show_nat (nat (- i)) else show_nat (nat i))"

text \<open>
  A string and a number inside a template literal. The numbers of a payload (issue and
  pull request numbers) are integers that a double holds exactly and prints in plain
  decimal, below \<open>2^53\<close> in size; other numbers are outside this model.
\<close>

fun str :: "string opt \<Rightarrow> string" where
  "str Undefined = ''undefined''"
| "str Null = ''null''"
| "str (Val s) = s"

fun num :: "int opt \<Rightarrow> string" where
  "num Undefined = ''undefined''"
| "num Null = ''null''"
| "num (Val n) = show_int n"

text \<open>\<open>s.replace(pat, "")\<close> with a string pattern: the first occurrence is removed.\<close>

fun remove_first :: "string \<Rightarrow> string \<Rightarrow> string" where
  "remove_first pat [] = []"
| "remove_first pat (c # cs) =
     (if prefix pat (c # cs) then drop (length pat) (c # cs) else c # remove_first pat cs)"

text \<open>\<open>s.split("\n")[0]\<close>.\<close>

definition first_line :: "string \<Rightarrow> string" where
  "first_line s = takeWhile (\<lambda>c. c \<noteq> CHR 0x0A) s"

text \<open>
  \<open>b.length > 1000 ? b.substring(0, 997) + "..." : b\<close>, the expression of all four
  truncation sites.
\<close>

definition truncate_body :: "string \<Rightarrow> string" where
  "truncate_body b = (if length b > 1000 then take 997 b @ ''...'' else b)"

text \<open>\<open>forEach\<close> with a body that may throw: the first error ends the loop.\<close>

fun map_js :: "('a \<Rightarrow> 'b js) \<Rightarrow> 'a list \<Rightarrow> 'b list js" where
  "map_js f [] = Inr []"
| "map_js f (x # xs) = bind_js (f x) (\<lambda>y. bind_js (map_js f xs) (\<lambda>ys. Inr (y # ys)))"

section \<open>The notification card\<close>

record embed_footer =
  footer_text :: string
  footer_icon_url :: string

record embed_author =
  author_name :: "string opt"
  author_url :: "string opt"
  author_icon_url :: "string opt"

record embed_field =
  field_name :: string
  field_value :: "string opt"
  field_inline :: "bool option"

record embed =
  title :: string
  description :: string
  url :: "string opt"
  color :: nat
  timestamp :: string
  footer :: embed_footer
  author :: "embed_author option"
  card_fields :: "embed_field list"

section \<open>Source-control payloads\<close>

record gh_sender =
  sender_login :: "string opt"
  sender_html_url :: "string opt"
  sender_avatar_url :: "string opt"

record gh_repository =
  repo_name :: "string opt"

record gh_commit_author =
  cauthor_name :: "string opt"

record gh_commit =
  commit_id :: "string opt"
  commit_message :: "string opt"
  commit_url :: "string opt"
  commit_author :: "gh_commit_author opt"

record gh_pull_request =
  pr_number :: "int opt"
  pr_title :: "string opt"
  pr_html_url :: "string opt"
  pr_state :: "string opt"
  pr_merged :: "bool opt"
  pr_body :: "string opt"

record gh_issue =
  issue_number :: "int opt"
  issue_title :: "string opt"
  issue_html_url :: "string opt"
  issue_body :: "string opt"

record gh_user =
  user_login :: "string opt"

record gh_comment =
  comment_html_url :: "string opt"
  comment_body :: "string opt"
  comment_user :: "gh_user opt"

record gh_payload =
  p_sender :: "gh_sender opt"
  p_ref :: "string opt"
  p_repository :: "gh_repository opt"
  p_compare :: "string opt"
  p_commits :: "gh_commit opt list opt"
  p_action :: "string opt"
  p_pull_request :: "gh_pull_request opt"
  p_issue :: "gh_issue opt"
  p_comment :: "gh_comment opt"

section \<open>formatGitHubMessage\<close>

text \<open>The body of the \<open>forEach\<close> over the first five commits.\<close>

definition commit_field :: "gh_commit opt \<Rightarrow> embed_field js" where
  "commit_field commit =
     bind_js (rd commit commit_id) (\<lambda>cid.
     bind_js (rd cid (take 7)) (\<lambda>short.
     bind_js (rd commit commit_message) (\<lambda>msg.
     bind_js (rd msg first_line) (\<lambda>line.
     bind_js (rd commit commit_url) (\<lambda>curl.
     bind_js (rd commit commit_author) (\<lambda>cauthor.
     bind_js (rd cauthor cauthor_name) (\<lambda>aname.
       Inr \<lparr>field_name = short,
            field_value = Val (''['' @ line @ '']('' @ str curl @ '') - '' @ str aname),
            field_inline = None\<rparr>)))))))"

definition more_commits_field :: "nat \<Rightarrow> embed_field" where
  "more_commits_field n =
     \<lparr>field_name = ''...'',
      field_value = Val (show_nat (n - 5) @ '' more commits not shown''),
      field_inline = None\<rparr>"

text \<open>\<open>case "push"\<close>.\<close>

definition format_push :: "embed \<Rightarrow> gh_payload \<Rightarrow> embed js" where
  "format_push e0 payload =
     bind_js (rd (p_ref payload) (remove_first ''refs/heads/'')) (\<lambda>branch.
     bind_js (rd (p_repository payload) repo_name) (\<lambda>rname.
     let e1 = e0\<lparr>title := ''['' @ str rname @ ''] Push to '' @ branch,
                 url := p_compare payload\<rparr> in
     bind_js (rd (p_commits payload) (\<lambda>cs. cs)) (\<lambda>all_commits.
     let commits = take 5 all_commits in
     if length commits > 0 then
       let e2 = e1\<lparr>description := show_nat (length all_commits) @ '' commit(s) pushed''\<rparr> in
       bind_js (map_js commit_field commits) (\<lambda>fs.
         Inr (e2\<lparr>card_fields := card_fields e2 @ fs @
                (if length all_commits > 5 then [more_commits_field (length all_commits)]
                 else [])\<rparr>))
     else Inr e1)))"

text \<open>The optional Description or Comment field.\<close>

definition body_field :: "string \<Rightarrow> string opt \<Rightarrow> embed_field list" where
  "body_field label b =
     (if truthy_str b
      then [\<lparr>field_name = label, field_value = Val (truncate_body (str b)),
             field_inline = None\<rparr>]
      else [])"

text \<open>\<open>case "pull_request"\<close>.\<close>

definition format_pull_request :: "embed \<Rightarrow> gh_payload \<Rightarrow> embed js" where
  "format_pull_request e0 payload =
     bind_js (rd (p_repository payload) repo_name) (\<lambda>rname.
     bind_js (rd (p_pull_request payload) (\<lambda>pr. pr)) (\<lambda>pr.
       Inr (e0\<lparr>title := ''['' @ str rname @ ''] Pull Request '' @ str (p_action payload),
               url := pr_html_url pr,
               description := ''[#'' @ num (pr_number pr) @ '': '' @ str (pr_title pr) @ '']('' @
                              str (pr_html_url pr) @ '')'',
               card_fields := card_fields e0 @
                 [\<lparr>field_name = ''State'', field_value = pr_state pr, field_inline = Some True\<rparr>,
                  \<lparr>field_name = ''Merged'',
                   field_value = Val (if truthy_bool (pr_merged pr) then ''Yes'' else ''No''),
                   field_inline = Some True\<rparr>] @
                 body_field ''Description'' (pr_body pr)\<rparr>)))"

text \<open>\<open>case "issues"\<close>.\<close>

definition format_issues :: "embed \<Rightarrow> gh_payload \<Rightarrow> embed js" where
  "format_issues e0 payload =
     bind_js (rd (p_repository payload) repo_name) (\<lambda>rname.
     bind_js (rd (p_issue payload) (\<lambda>i. i)) (\<lambda>issue.
       Inr (e0\<lparr>title := ''['' @ str rname @ ''] Issue '' @ str (p_action payload),
               url := issue_html_url issue,
               description := ''[#'' @ num (issue_number issue) @ '': '' @
                              str (issue_title issue) @ '']('' @
                              str (issue_html_url issue) @ '')'',
               color := 0xE99455,
               card_fields := card_fields e0 @ body_field ''Description'' (issue_body issue)\<rparr>)))"

text \<open>\<open>case "issue_comment"\<close>.\<close>

definition format_issue_comment :: "embed \<Rightarrow> gh_payload \<Rightarrow> embed js" where
  "format_issue_comment e0 payload =
     bind_js (rd (p_repository payload) repo_name) (\<lambda>rname.
     bind_js (rd (p_issue payload) (\<lambda>i. i)) (\<lambda>issue.
     bind_js (rd (p_comment payload) (\<lambda>c. c)) (\<lambda>comment.
     bind_js (rd (comment_user comment) user_login) (\<lambda>login.
       Inr (e0\<lparr>title := ''['' @ str rname @ ''] Comment on issue #'' @ num (issue_number issue),
               url := comment_html_url comment,
               description := str login @ '' commented on [#'' @ num (issue_number issue) @
                              '': '' @ str (issue_title issue) @ '']('' @
                              str (issue_html_url issue) @ '')'',
               card_fields := card_fields e0 @ body_field ''Comment'' (comment_body comment)\<rparr>)))))"

text \<open>\<open>default\<close>.\<close>

definition format_default :: "embed \<Rightarrow> gh_payload \<Rightarrow> string \<Rightarrow> embed js" where
  "format_default e0 payload eventType =
     bind_js (rd (p_repository payload) repo_name) (\<lambda>rname.
       Inr (e0\<lparr>title := ''['' @ str rname @ ''] '' @ eventType @ '' event received'',
               description := ''Unsupported event type''\<rparr>))"

text \<open>The card before the \<open>switch\<close>; \<open>now\<close> is \<open>new Date().toISOString()\<close>.\<close>

definition github_embed :: "string \<Rightarrow> gh_sender opt \<Rightarrow> embed" where
  "github_embed now sender =
     \<lparr>title = [], description = [], url = Val [], color = 0x2EA44F, timestamp = now,
      footer = \<lparr>footer_text = ''GitHub'',
                footer_icon_url =
                  ''https://github.githubassets.com/assets/GitHub-Mark-ea2971cee799.png''\<rparr>,
      author = Some
        \<lparr>author_name = (case sender of Val s \<Rightarrow> sender_login s | _ \<Rightarrow> Val ''Unknown''),
         author_url = (case sender of Val s \<Rightarrow> sender_html_url s | _ \<Rightarrow> Val []),
         author_icon_url = (case sender of Val s \<Rightarrow> sender_avatar_url s | _ \<Rightarrow> Val [])\<rparr>,
      card_fields = []\<rparr>"

definition formatGitHubMessage :: "string \<Rightarrow> gh_payload opt \<Rightarrow> string \<Rightarrow> embed js" where
  "formatGitHubMessage now payload eventType =
     bind_js (rd payload (\<lambda>p. p)) (\<lambda>p.
       let e0 = github_embed now (p_sender p) in
       if eventType = ''push'' then format_push e0 p
       else if eventType = ''pull_request'' then format_pull_request e0 p
       else if eventType = ''issues'' then format_issues e0 p
       else if eventType = ''issue_comment'' then format_issue_comment e0 p
       else format_default e0 p eventType)"

section \<open>Board payloads\<close>

record tr_model =
  model_url :: "string opt"

record tr_member_creator =
  mc_fullName :: "string opt"

record tr_card =
  card_name :: "string opt"
  card_due :: "string opt"

record tr_list =
  list_name :: "string opt"

text \<open>In \<open>old\<close> the key \<open>due\<close> is absent (\<open>Undefined\<close>) or present, possibly \<open>null\<close>.\<close>

record tr_old =
  old_due :: "string opt"

record tr_member =
  member_name :: "string opt"

record tr_label =
  label_name :: "string opt"
  label_color :: "string opt"

record tr_action_data =
  ad_card :: "tr_card opt"
  ad_list :: "tr_list opt"
  ad_listBefore :: "tr_list opt"
  ad_listAfter :: "tr_list opt"
  ad_old :: "tr_old opt"
  ad_text :: "string opt"
  ad_member :: "tr_member opt"
  ad_label :: "tr_label opt"

record tr_action =
  a_type :: "string opt"
  a_memberCreator :: "tr_member_creator opt"
  a_data :: "tr_action_data opt"

record tr_data =
  d_action :: "tr_action opt"
  d_model :: "tr_model opt"

section \<open>formatTrelloMessage\<close>

text \<open>\<open>a || b\<close> on strings.\<close>

definition or_str :: "string opt \<Rightarrow> string opt \<Rightarrow> string opt" where
  "or_str a b = (if truthy_str a then a else b)"

text \<open>\<open>data.model?.url || ""\<close>.\<close>

definition model_url_or_empty :: "tr_data \<Rightarrow> string opt" where
  "model_url_or_empty data =
     or_str (case d_model data of Val m \<Rightarrow> model_url m | _ \<Rightarrow> Undefined) (Val [])"

definition trello_embed :: "string \<Rightarrow> tr_data \<Rightarrow> embed" where
  "trello_embed now data =
     \<lparr>title = [], description = [], url = model_url_or_empty data, color = 0x0079BF,
      timestamp = now,
      footer = \<lparr>footer_text = ''Trello'',
                footer_icon_url = ''https://d2k1ftgv7pobq7.cloudfront.net/meta/u/res/images/trello-header-logos/76ceb1faa939ede03abacb6efacdde16/trello-logo-blue.svg''\<rparr>,
      author = None,
      card_fields = []\<rparr>"

definition filteredTypes :: "string list" where
  "filteredTypes =
     [''createCheckItem'', ''updateCheckItem'', ''addAttachmentToCard'',
      ''addChecklistToCard'', ''updateCheckItemStateOnCard'']"

text \<open>\<open>[${action.data.card.name}](${data.model.url})\<close>, the end of six descriptions.\<close>

definition card_link :: "tr_action \<Rightarrow> tr_data \<Rightarrow> string js" where
  "card_link action data =
     bind_js (rd (a_data action) ad_card) (\<lambda>card.
     bind_js (rd card card_name) (\<lambda>cname.
     bind_js (rd (d_model data) model_url) (\<lambda>murl.
       Inr (''['' @ str cname @ '']('' @ str murl @ '')''))))"

definition inline_field :: "string \<Rightarrow> string opt \<Rightarrow> embed_field" where
  "inline_field n v = \<lparr>field_name = n, field_value = v, field_inline = Some True\<rparr>"

text \<open>\<open>d ? new Date(d).toLocaleString() : "None"\<close>; the rendering is the runtime's.\<close>

definition due_text :: "(string \<Rightarrow> string) \<Rightarrow> string opt \<Rightarrow> string" where
  "due_text toLocaleString d = (if truthy_str d then toLocaleString (str d) else ''None'')"

text \<open>\<open>case "createCard"\<close>.\<close>

definition format_createCard :: "embed \<Rightarrow> string \<Rightarrow> tr_action \<Rightarrow> tr_data \<Rightarrow> embed js" where
  "format_createCard e0 memberName action data =
     bind_js (card_link action data) (\<lambda>link.
     bind_js (rd (a_data action) ad_list) (\<lambda>lst.
       Inr (e0\<lparr>title := ''Card Created'',
               description := memberName @ '' created card '' @ link,
               card_fields := card_fields e0 @
                 (case lst of Val l \<Rightarrow> [inline_field ''List'' (list_name l)] | _ \<Rightarrow> [])\<rparr>)))"

text \<open>\<open>case "updateCard"\<close>: a move, else a due date change, else any other update.\<close>

definition format_updateCard ::
  "(string \<Rightarrow> string) \<Rightarrow> embed \<Rightarrow> string \<Rightarrow> tr_action \<Rightarrow> tr_data \<Rightarrow> embed js" where
  "format_updateCard toLocaleString e0 memberName action data =
     bind_js (rd (a_data action) (\<lambda>d. d)) (\<lambda>adata.
       case (ad_listBefore adata, ad_listAfter adata) of
         (Val before, Val after) \<Rightarrow>
           bind_js (card_link action data) (\<lambda>link.
             Inr (e0\<lparr>title := ''Card Moved'',
                     description := memberName @ '' moved card '' @ link,
                     card_fields := card_fields e0 @
                       [inline_field ''From'' (list_name before),
                        inline_field ''To'' (list_name after)]\<rparr>))
       | _ \<Rightarrow>
          (case ad_old adata of
             Val old \<Rightarrow>
               if old_due old \<noteq> Undefined then
                 bind_js (card_link action data) (\<lambda>link.
                 bind_js (rd (ad_card adata) card_due) (\<lambda>due.
                   Inr (e0\<lparr>title := ''Due Date Changed'',
                           description := memberName @ '' updated due date for card '' @ link,
                           card_fields := card_fields e0 @
                             [inline_field ''From'' (Val (due_text toLocaleString (old_due old))),
                              inline_field ''To'' (Val (due_text toLocaleString due))]\<rparr>)))
               else
                 bind_js (card_link action data) (\<lambda>link.
                   Inr (e0\<lparr>title := ''Card Updated'',
                           description := memberName @ '' updated card '' @ link\<rparr>))
           | _ \<Rightarrow>
               bind_js (card_link action data) (\<lambda>link.
                 Inr (e0\<lparr>title := ''Card Updated'',
                         description := memberName @ '' updated card '' @ link\<rparr>))))"

text \<open>\<open>case "commentCard"\<close>.\<close>

definition format_commentCard :: "embed \<Rightarrow> string \<Rightarrow> tr_action \<Rightarrow> tr_data \<Rightarrow> embed js" where
  "format_commentCard e0 memberName action data =
     bind_js (card_link action data) (\<lambda>link.
     bind_js (rd (a_data action) ad_text) (\<lambda>text.
       Inr (e0\<lparr>title := ''Comment Added'',
               description := memberName @ '' commented on card '' @ link,
               card_fields := card_fields e0 @ body_field ''Comment'' text\<rparr>)))"

text \<open>\<open>case "addMemberToCard"\<close> and \<open>case "removeMemberFromCard"\<close>.\<close>

definition format_memberCard ::
  "string \<Rightarrow> string \<Rightarrow> string \<Rightarrow> embed \<Rightarrow> string \<Rightarrow> tr_action \<Rightarrow> tr_data \<Rightarrow> embed js" where
  "format_memberCard ttl verb prep e0 memberName action data =
     bind_js (rd (a_data action) ad_member) (\<lambda>member.
     bind_js (rd member member_name) (\<lambda>mname.
     bind_js (card_link action data) (\<lambda>link.
       Inr (e0\<lparr>title := ttl,
               description := memberName @ verb @ str mname @ prep @ link\<rparr>))))"

text \<open>\<open>case "addLabelToCard"\<close>.\<close>

definition format_addLabelToCard :: "embed \<Rightarrow> string \<Rightarrow> tr_action \<Rightarrow> tr_data \<Rightarrow> embed js" where
  "format_addLabelToCard e0 memberName action data =
     bind_js (card_link action data) (\<lambda>link.
     bind_js (rd (a_data action) ad_label) (\<lambda>label.
       Inr (e0\<lparr>title := ''Label Added'',
               description := memberName @ '' added label to card '' @ link,
               card_fields := card_fields e0 @
                 (case label of
                    Val l \<Rightarrow> [inline_field ''Label'' (or_str (label_name l) (label_color l))]
                  | _ \<Rightarrow> [])\<rparr>)))"

text \<open>The result \<open>None\<close> is JavaScript's \<open>null\<close>: the event is filtered.\<close>

definition formatTrelloMessage ::
  "string \<Rightarrow> (string \<Rightarrow> string) \<Rightarrow> tr_data opt \<Rightarrow> embed option js" where
  "formatTrelloMessage now toLocaleString data0 =
     bind_js (rd data0 (\<lambda>d. d)) (\<lambda>data.
       case d_action data of
         Val action \<Rightarrow>
           if \<not> truthy_str (a_type action) then
             Inr (Some ((trello_embed now data)
                    \<lparr>title := ''Trello Activity'', description := ''Unrecognized Trello event''\<rparr>))
           else
             let actionType = str (a_type action) in
             if actionType \<in> set filteredTypes then Inr None
             else
               let e0 = trello_embed now data;
                   memberName = (case a_memberCreator action of
                                   Val mc \<Rightarrow> str (mc_fullName mc) | _ \<Rightarrow> ''Unknown'')
               in map_sum (\<lambda>e. e) Some
                 (if actionType = ''createCard'' then format_createCard e0 memberName action data
                  else if actionType = ''updateCard''
                    then format_updateCard toLocaleString e0 memberName action data
                  else if actionType = ''commentCard''
                    then format_commentCard e0 memberName action data
                  else if actionType = ''addMemberToCard''
                    then format_memberCard ''Member Added to Card'' '' added '' '' to card ''
                           e0 memberName action data
                  else if actionType = ''removeMemberFromCard''
                    then format_memberCard ''Member Removed from Card'' '' removed ''
                           '' from card '' e0 memberName action data
                  else if actionType = ''addLabelToCard''
                    then format_addLabelToCard e0 memberName action data
                  else Inr (e0\<lparr>title := ''Trello Activity'',
                               description := memberName @ '' performed action: '' @ actionType\<rparr>))
       | _ \<Rightarrow>
           Inr (Some ((trello_embed now data)
                  \<lparr>title := ''Trello Activity'', description := ''Unrecognized Trello event''\<rparr>)))"

section \<open>Configuration\<close>

text \<open>
  \<open>config.js\<close> reads the process environment in test mode and the deployment's
  parameters otherwise. An unset environment variable is \<open>None\<close>.
\<close>

record config =
  NODE_ENV :: "string option"
  DISCORD_WEBHOOK_URL_TEST :: "string option"
  GITHUB_SECRET_TEST :: "string option"
  TRELLO_API_KEY_TEST :: "string option"
  TRELLO_API_URL_TEST :: "string option"
  DISCORD_WEBHOOK_URL :: string
  GITHUB_SECRET :: string
  TRELLO_API_KEY :: string
  TRELLO_API_URL :: string

definition isTestMode :: "config \<Rightarrow> bool" where
  "isTestMode cfg = (NODE_ENV cfg = Some ''test'')"

text \<open>\<open>process.env.X || d\<close>.\<close>

definition env_or :: "string option \<Rightarrow> string \<Rightarrow> string" where
  "env_or v d = (case v of Some s \<Rightarrow> (if s = [] then d else s) | None \<Rightarrow> d)"

definition getDiscordWebhookUrl :: "config \<Rightarrow> string" where
  "getDiscordWebhookUrl cfg =
     (if isTestMode cfg then env_or (DISCORD_WEBHOOK_URL_TEST cfg) [] else DISCORD_WEBHOOK_URL cfg)"

definition getGithubSecret :: "config \<Rightarrow> string" where
  "getGithubSecret cfg =
     (if isTestMode cfg then env_or (GITHUB_SECRET_TEST cfg) [] else GITHUB_SECRET cfg)"

definition getTrelloApiKey :: "config \<Rightarrow> string" where
  "getTrelloApiKey cfg =
     (if isTestMode cfg then env_or (TRELLO_API_KEY_TEST cfg) [] else TRELLO_API_KEY cfg)"

definition getTrelloApiUrl :: "config \<Rightarrow> string" where
  "getTrelloApiUrl cfg =
     (if isTestMode cfg
      then env_or (TRELLO_API_URL_TEST cfg) ''http://localhost:5000/trello-mock-api''
      else TRELLO_API_URL cfg)"

section \<open>sendDiscordMessage\<close>

record envelope =
  embeds :: "embed list"

text \<open>
  What the function resolves to: the decoded body of the chat platform's response, or
  the mock object of the \<open>catch\<close> block with its \<open>echo\<close> and \<open>error\<close> properties.
\<close>

datatype 'r discord_response = Data 'r | Mocked envelope string


text \<open>
  The identifier \<open>payload\<close> as the \<open>catch\<close> block reads it. The only declaration is
  \<open>const payload\<close> inside the \<open>try\<close> block, whose scope ends with that block, and the
  module declares no other \<open>payload\<close>: evaluating the identifier throws a ReferenceError.
\<close>

definition payload_in_catch :: "envelope js" where
  "payload_in_catch = Inl ReferenceError"

text \<open>\<open>post\<close> is \<open>axios.post\<close>: the decoded response body, or the error of a failed delivery.\<close>

definition sendDiscordMessage ::
  "config \<Rightarrow> (string \<Rightarrow> envelope \<Rightarrow> axios_error + 'r) \<Rightarrow> string \<Rightarrow> embed \<Rightarrow>
   'r discord_response js" where
  "sendDiscordMessage cfg post webhookUrl emb =
     (let payload = \<lparr>embeds = [emb]\<rparr> in
      case post webhookUrl payload of
        Inr data \<Rightarrow> Inr (Data data)
      | Inl error \<Rightarrow>
          if isTestMode cfg
          then bind_js payload_in_catch (\<lambda>p. Inr (Mocked p (ax_message error)))
          else Inl (AxiosError error))"

section \<open>Responses\<close>

text \<open>
  What a handler writes to \<open>res\<close>: the status (200 when the code sets none, 302 for
  \<open>res.redirect\<close>) and the body given to \<open>send\<close>, \<open>json\<close>, \<open>redirect\<close> or \<open>end\<close>.
\<close>

datatype 'r json_value = JString string | JResponse "'r discord_response"

datatype 'r res_body =
    Send string
  | Json "(string \<times> 'r json_value) list"
  | Redirect string
  | End

record 'r response =
  status :: nat
  body :: "'r res_body"

text \<open>A handler's outcome: its response and the outbound chat calls it made, in order.\<close>

type_synonym 'r outcome = "'r response \<times> (string \<times> envelope) list"

definition respond :: "nat \<Rightarrow> 'r res_body \<Rightarrow> (string \<times> envelope) list \<Rightarrow> 'r outcome" where
  "respond st b calls = (\<lparr>status = st, body = b\<rparr>, calls)"

section \<open>The source-control webhook handler\<close>

record gh_request =
  gh_method :: string
  gh_headers :: "string \<Rightarrow> string option"
  gh_body :: "gh_payload opt"

text \<open>
  \<open>Buffer.from(s)\<close>: the UTF-8 bytes of a string. A header value is decoded one byte
  to one code unit, so its code units are below 256: a code unit below 128 is one byte,
  any other one is two.
\<close>

definition utf8_unit :: "char \<Rightarrow> nat list" where
  "utf8_unit c =
     (if (of_char c :: nat) < 128 then [of_char c]
      else [192 + of_char c div 64, 128 + of_char c mod 64])"

definition utf8 :: "string \<Rightarrow> nat list" where
  "utf8 s = concat (map utf8_unit s)"

text \<open>
  \<open>crypto.timingSafeEqual\<close> on two buffers: a RangeError when their byte lengths differ.
\<close>

definition timingSafeEqual :: "nat list \<Rightarrow> nat list \<Rightarrow> bool js" where
  "timingSafeEqual a b = (if length a \<noteq> length b then Inl RangeError else Inr (a = b))"

text \<open>
  \<open>hmac secret text\<close> is the hex digest of HMAC-SHA256 and \<open>stringify\<close> is
  \<open>JSON.stringify\<close>; both belong to the runtime.
\<close>

definition verifyGitHubSignature ::
  "(string \<Rightarrow> string \<Rightarrow> string) \<Rightarrow> (gh_payload opt \<Rightarrow> string) \<Rightarrow> gh_request \<Rightarrow> string \<Rightarrow> bool js" where
  "verifyGitHubSignature hmac stringify req secret =
     (if secret = [] then Inr True
      else case gh_headers req ''x-hub-signature-256'' of
        None \<Rightarrow> Inr False
      | Some signature \<Rightarrow>
          if signature = [] then Inr False
          else timingSafeEqual (utf8 signature)
                 (utf8 (''sha256='' @ hmac secret (stringify (gh_body req)))))"

definition supportedEvents :: "string list" where
  "supportedEvents = [''push'', ''pull_request'', ''issues'', ''issue_comment'']"

definition handleWebhook ::
  "config \<Rightarrow> (string \<Rightarrow> envelope \<Rightarrow> axios_error + 'r) \<Rightarrow> string \<Rightarrow> (string \<Rightarrow> string \<Rightarrow> string) \<Rightarrow>
   (gh_payload opt \<Rightarrow> string) \<Rightarrow> gh_request \<Rightarrow> string \<Rightarrow> string \<Rightarrow> 'r outcome js" where
  "handleWebhook cfg post now hmac stringify req discordWebhookUrl secret =
     (if gh_method req \<noteq> ''POST'' then Inr (respond 405 (Send ''Method not allowed'') [])
      else
        bind_js (if secret \<noteq> [] \<and> \<not> isTestMode cfg
                 then verifyGitHubSignature hmac stringify req secret else Inr True) (\<lambda>valid.
        if \<not> valid then Inr (respond 403 (Send ''Invalid signature'') [])
        else case gh_headers req ''x-github-event'' of
          None \<Rightarrow> Inr (respond 400 (Send ''No event type specified'') [])
        | Some eventType \<Rightarrow>
            if eventType = [] then Inr (respond 400 (Send ''No event type specified'') [])
            else if eventType \<in> set supportedEvents then
              (case formatGitHubMessage now (gh_body req) eventType of
                 Inl error \<Rightarrow> Inr (respond 500 (Send ''Error processing webhook'') [])
               | Inr emb \<Rightarrow>
                  (case sendDiscordMessage cfg post discordWebhookUrl emb of
                     Inl error \<Rightarrow>
                       Inr (respond 500 (Send ''Error processing webhook'')
                              [(discordWebhookUrl, \<lparr>embeds = [emb]\<rparr>)])
                   | Inr discordResponse \<Rightarrow>
                       Inr (respond 200
                              (if isTestMode cfg
                               then Json [(''message'', JString ''Webhook processed successfully''),
                                          (''discord_response'', JResponse discordResponse)]
                               else Send ''Webhook processed successfully'')
                              [(discordWebhookUrl, \<lparr>embeds = [emb]\<rparr>)])))
            else Inr (respond 202 (Send ''Event type not processed'') [])))"

text \<open>The endpoint of \<open>index.js\<close>: an error that leaves \<open>handleWebhook\<close> becomes a 500.\<close>

definition githubNotification ::
  "config \<Rightarrow> (string \<Rightarrow> envelope \<Rightarrow> axios_error + 'r) \<Rightarrow> string \<Rightarrow> (string \<Rightarrow> string \<Rightarrow> string) \<Rightarrow>
   (gh_payload opt \<Rightarrow> string) \<Rightarrow> gh_request \<Rightarrow> 'r outcome" where
  "githubNotification cfg post now hmac stringify req =
     (case handleWebhook cfg post now hmac stringify req
             (getDiscordWebhookUrl cfg) (getGithubSecret cfg) of
        Inl error \<Rightarrow> respond 500 (Send ''Error processing webhook'') []
      | Inr out \<Rightarrow> out)"

section \<open>The board webhook handler\<close>

record tr_request =
  tr_method :: string
  tr_body :: "tr_data opt"

definition handleTrelloEvent ::
  "config \<Rightarrow> (string \<Rightarrow> envelope \<Rightarrow> axios_error + 'r) \<Rightarrow> string \<Rightarrow> (string \<Rightarrow> string) \<Rightarrow>
   tr_request \<Rightarrow> string \<Rightarrow> 'r outcome" where
  "handleTrelloEvent cfg post now toLocaleString req discordWebhookUrl =
     (if \<not> isTestMode cfg \<and>
         (case tr_body req of Val b \<Rightarrow> \<not> truthy_obj (d_action b) | _ \<Rightarrow> True)
      then respond 400 (Send ''Invalid Trello payload'') []
      else
        case formatTrelloMessage now toLocaleString (tr_body req) of
          Inl error \<Rightarrow> respond 500 (Send ''Error processing Trello event'') []
        | Inr None \<Rightarrow> respond 200 (Send ''Trello event filtered (notification not sent)'') []
        | Inr (Some emb) \<Rightarrow>
           (case sendDiscordMessage cfg post discordWebhookUrl emb of
              Inl error \<Rightarrow>
                respond 500 (Send ''Error processing Trello event'')
                  [(discordWebhookUrl, \<lparr>embeds = [emb]\<rparr>)]
            | Inr discordResponse \<Rightarrow>
                respond 200
                  (if isTestMode cfg
                   then Json [(''message'', JString ''Trello event processed successfully''),
                              (''discord_response'', JResponse discordResponse)]
                   else Send ''Trello event processed successfully'')
                  [(discordWebhookUrl, \<lparr>embeds = [emb]\<rparr>)]))"

text \<open>The endpoint of \<open>index.js\<close>: HEAD and GET are answered before the handler.\<close>

definition trelloNotification ::
  "config \<Rightarrow> (string \<Rightarrow> envelope \<Rightarrow> axios_error + 'r) \<Rightarrow> string \<Rightarrow> (string \<Rightarrow> string) \<Rightarrow>
   tr_request \<Rightarrow> 'r outcome" where
  "trelloNotification cfg post now toLocaleString req =
     (if tr_method req = ''HEAD'' then respond 200 End []
      else if tr_method req = ''GET'' then respond 200 (Send ''Webhook validation successful'') []
      else handleTrelloEvent cfg post now toLocaleString req (getDiscordWebhookUrl cfg))"

section \<open>Board registration\<close>

record reg_request =
  q_boardId :: "string option"
  q_token :: "string option"
  h_referer :: "string option"
  r_protocol :: string
  r_hostname :: string

text \<open>\<open>s.includes(pat)\<close>.\<close>

fun str_includes :: "string \<Rightarrow> string \<Rightarrow> bool" where
  "str_includes [] pat = (pat = [])"
| "str_includes (c # cs) pat = (prefix pat (c # cs) \<or> str_includes cs pat)"

text \<open>The page that promotes the token from the URL fragment to a query parameter.\<close>

definition fragment_page :: "string \<Rightarrow> string" where
  \<open>fragment_page boardId =
     ''\<newline>'' @
     ''          <html>\<newline>'' @
     ''            <head>\<newline>'' @
     ''              <title>Processing Trello Authorization</title>\<newline>'' @
     ''              <script>\<newline>'' @
     ''                // Extract token from hash fragment\<newline>'' @
     ''                const hash = window.location.hash;\<newline>'' @
     ''                const tokenMatch = hash.match(/#token=([^&]+)/);\<newline>'' @
     ''                \<newline>'' @
     ''                if (tokenMatch && tokenMatch[1]) {\<newline>'' @
     ''                  // Redirect with token as a query parameter\<newline>'' @
     ''                  const token = tokenMatch[1];\<newline>'' @
     ''                  const boardId = "'' @ boardId @ ''";\<newline>'' @
     ''                  window.location.href = "/registerTrelloBoard?boardId=" + boardId + "&token=" + token;\<newline>'' @
     ''                } else {\<newline>'' @
     ''                  document.body.innerHTML = '<h1>Error</h1><p>No token found in the URL. Please try again.</p>';\<newline>'' @
     ''                }\<newline>'' @
     ''              </script>\<newline>'' @
     ''            </head>\<newline>'' @
     ''            <body>\<newline>'' @
     ''              <h1>Processing Trello Authorization...</h1>\<newline>'' @
     ''              <p>Please wait while we process your authorization...</p>\<newline>'' @
     ''            </body>\<newline>'' @
     ''          </html>\<newline>'' @
     ''        ''\<close>

text \<open>The confirmation page; \<open>details\<close> is \<open>JSON.stringify(response.data, null, 2)\<close>.\<close>

definition success_page :: "string \<Rightarrow> string" where
  \<open>success_page details =
     ''\<newline>'' @
     ''        <html>\<newline>'' @
     ''          <head>\<newline>'' @
     ''            <title>Trello Board Registered</title>\<newline>'' @
     ''            <style>\<newline>'' @
     ''              body { font-family: Arial, sans-serif; max-width: 600px; margin: 0 auto; padding: 20px; }\<newline>'' @
     ''              .success { color: green; }\<newline>'' @
     ''              pre { background: #f4f4f4; padding: 10px; border-radius: 4px; }\<newline>'' @
     ''            </style>\<newline>'' @
     ''          </head>\<newline>'' @
     ''          <body>\<newline>'' @
     ''            <h1 class="success">Success!</h1>\<newline>'' @
     ''            <p>Your Trello board has been successfully connected to Discord notifications.</p>\<newline>'' @
     ''            <h2>Webhook Details:</h2>\<newline>'' @
     ''            <pre>'' @ details @ ''</pre>\<newline>'' @
     ''          </body>\<newline>'' @
     ''        </html>\<newline>'' @
     ''      ''\<close>

text \<open>The error page of a failed registration.\<close>

definition error_page :: "string \<Rightarrow> string \<Rightarrow> string \<Rightarrow> string" where
  \<open>error_page msg details boardId =
     ''\<newline>'' @
     ''        <html>\<newline>'' @
     ''          <head>\<newline>'' @
     ''            <title>Trello Registration Error</title>\<newline>'' @
     ''            <style>\<newline>'' @
     ''              body { font-family: Arial, sans-serif; max-width: 600px; margin: 0 auto; padding: 20px; }\<newline>'' @
     ''              .error { color: red; }\<newline>'' @
     ''              pre { background: #f4f4f4; padding: 10px; border-radius: 4px; }\<newline>'' @
     ''              .help { margin-top: 20px; border-top: 1px solid #ddd; padding-top: 20px; }\<newline>'' @
     ''            </style>\<newline>'' @
     ''          </head>\<newline>'' @
     ''          <body>\<newline>'' @
     ''            <h1 class="error">Error Registering Trello Board</h1>\<newline>'' @
     ''            <p>There was a problem connecting your Trello board to Discord notifications.</p>\<newline>'' @
     ''            <p>Error details: '' @ msg @ ''</p>\<newline>'' @
     ''            <pre>'' @ details @ ''</pre>\<newline>'' @
     ''            \<newline>'' @
     ''            <div class="help">\<newline>'' @
     ''              <h2>Troubleshooting</h2>\<newline>'' @
     ''              <p>Here are some things to check:</p>\<newline>'' @
     ''              <ul>\<newline>'' @
     ''                <li>Make sure the board ID is correct. You provided: <code>'' @ boardId @ ''</code></li>\<newline>'' @
     ''                <li>The board ID should be the ID from the URL, for example: <code>https://trello.com/b/<strong>abc123</strong>/board-name</code></li>\<newline>'' @
     ''                <li>Ensure you have admin access to the board</li>\<newline>'' @
     ''                <li>Try authorizing with Trello again by <a href="/registerTrelloBoard?boardId='' @ boardId @ ''">clicking here</a></li>\<newline>'' @
     ''              </ul>\<newline>'' @
     ''            </div>\<newline>'' @
     ''          </body>\<newline>'' @
     ''        </html>\<newline>'' @
     ''      ''\<close>

text \<open>The data of the board host's answer to the board lookup.\<close>

record board_data =
  board_name :: "string opt"
  board_id :: "string opt"

record webhook_data =
  callbackURL :: string
  idModel :: string
  wd_description :: string

text \<open>The outbound calls to the board host: URL, body and query parameters.\<close>

datatype trello_call =
    TrelloGet string "(string \<times> string) list"
  | TrelloPost string webhook_data "(string \<times> string) list"

type_synonym 'r reg_outcome = "'r response \<times> trello_call list"

text \<open>
  The runtime of the registration: \<open>axios.get\<close> and \<open>axios.post\<close> against the board
  host, \<open>encodeURIComponent\<close>, \<open>JSON.stringify(x, null, 2)\<close> of the registration
  response, and \<open>new Date().toISOString()\<close>.
\<close>

record 'w reg_runtime =
  axios_get :: "string \<Rightarrow> (string \<times> string) list \<Rightarrow> axios_error + board_data"
  axios_post :: "string \<Rightarrow> webhook_data \<Rightarrow> (string \<times> string) list \<Rightarrow> axios_error + 'w"
  encodeURIComponent :: "string \<Rightarrow> string"
  stringify_pretty :: "'w \<Rightarrow> string"
  reg_now :: string

text \<open>
  The inner \<open>try\<close> with its \<open>catch\<close>: the board lookup gives the full board id
  (\<open>Inr\<close>), or an \<open>Error\<close> with the given message is thrown (\<open>Inl\<close>).
\<close>

definition verify_board ::
  "'w reg_runtime \<Rightarrow> string \<Rightarrow> string \<Rightarrow> string \<Rightarrow> string \<Rightarrow> string + string" where
  "verify_board rt trelloApiUrl boardId apiKey token =
     (case axios_get rt (trelloApiUrl @ ''/boards/'' @ boardId)
             [(''key'', apiKey), (''token'', token), (''fields'', ''name,id'')] of
        Inl boardError \<Rightarrow>
          Inl (''Board verification failed: '' @
               str (or_str (ax_data_message boardError) (Val (ax_message boardError))) @
               ''. Make sure the board ID is correct and you have access to it.'')
      | Inr data \<Rightarrow>
          if truthy_str (board_id data) then Inr (str (board_id data))
          else Inl (''Board verification failed: '' @
                    ''Couldn't retrieve the full board ID'' @
                    ''. Make sure the board ID is correct and you have access to it.''))"

text \<open>The registration call and the page that reports it.\<close>

definition post_webhook ::
  "'w reg_runtime \<Rightarrow> string \<Rightarrow> webhook_data \<Rightarrow> (string \<times> string) list \<Rightarrow> string \<Rightarrow>
   'r response" where
  "post_webhook rt trelloApiUrl webhookData params boardId =
     (case axios_post rt (trelloApiUrl @ ''/webhooks'') webhookData params of
        Inl trelloError \<Rightarrow>
          \<lparr>status = 500,
           body = Send (error_page (ax_message trelloError) (ax_data_text trelloError) boardId)\<rparr>
      | Inr data \<Rightarrow>
          \<lparr>status = 200, body = Send (success_page (stringify_pretty rt data))\<rparr>)"

text \<open>The last hop: board id and token are both present.\<close>

definition register_webhook ::
  "config \<Rightarrow> 'w reg_runtime \<Rightarrow> reg_request \<Rightarrow> string \<Rightarrow> string \<Rightarrow> string \<Rightarrow> 'r reg_outcome" where
  "register_webhook cfg rt req boardId apiKey token =
     (let baseUrl = r_protocol req @ ''://'' @ r_hostname req;
          callbackUrl = baseUrl @ ''/trelloNotification'';
          descr = ''Discord notification webhook (created: '' @ reg_now rt @ '')'';
          trelloApiUrl = getTrelloApiUrl cfg;
          lookup = TrelloGet (trelloApiUrl @ ''/boards/'' @ boardId)
                     [(''key'', apiKey), (''token'', token), (''fields'', ''name,id'')]
      in case verify_board rt trelloApiUrl boardId apiKey token of
           Inl msg \<Rightarrow>
             (\<lparr>status = 500, body = Send (error_page msg ''{}'' boardId)\<rparr>, [lookup])
         | Inr fullBoardId \<Rightarrow>
             (let webhookData = \<lparr>callbackURL = callbackUrl, idModel = fullBoardId,
                                  wd_description = descr\<rparr>;
                  params = [(''key'', apiKey), (''token'', token)]
              in (post_webhook rt trelloApiUrl webhookData params boardId,
                  [lookup, TrelloPost (trelloApiUrl @ ''/webhooks'') webhookData params])))"

definition registerBoard :: "config \<Rightarrow> 'w reg_runtime \<Rightarrow> reg_request \<Rightarrow> 'r reg_outcome" where
  "registerBoard cfg rt req =
     (case q_boardId req of
        None \<Rightarrow>
          (\<lparr>status = 400,
            body = Json [(''error'', JString ''Missing required parameter: boardId''),
                         (''usage'', JString ''Add ?boardId=YOUR_BOARD_ID to the URL'')]\<rparr>, [])
      | Some boardId \<Rightarrow>
          if boardId = [] then
            (\<lparr>status = 400,
              body = Json [(''error'', JString ''Missing required parameter: boardId''),
                           (''usage'', JString ''Add ?boardId=YOUR_BOARD_ID to the URL'')]\<rparr>, [])
          else
            let token = q_token req;
                apiKey = getTrelloApiKey cfg
            in if apiKey = [] then
                 (\<lparr>status = 500,
                   body = Json [(''error'', JString ''Trello API key not configured''),
                                (''message'', JString
                                   ''The server administrator needs to set up a Trello API key first.'')]\<rparr>,
                  [])
               else if token = None \<or> token = Some [] then
                 (if (case h_referer req of
                        Some r \<Rightarrow> r \<noteq> [] \<and> str_includes r ''trello.com/1/authorize''
                      | None \<Rightarrow> False)
                  then (\<lparr>status = 200, body = Send (fragment_page boardId)\<rparr>, [])
                  else
                    let redirectUri = r_protocol req @ ''://'' @ r_hostname req @
                                      ''/registerTrelloBoard?boardId='' @ boardId;
                        trelloApiUrl = getTrelloApiUrl cfg;
                        trelloDomain = (if str_includes trelloApiUrl ''localhost''
                                        then trelloApiUrl else ''https://trello.com'');
                        authUrl = trelloDomain @ ''/1/authorize?expiration='' @ ''never'' @
                                  ''&scope='' @ ''read,write'' @ ''&response_type=token&name='' @
                                  encodeURIComponent rt ''Discord Notifications'' @
                                  ''&key='' @ apiKey @ ''&return_url='' @
                                  encodeURIComponent rt redirectUri
                    in (\<lparr>status = 302, body = Redirect authUrl\<rparr>, []))
               else register_webhook cfg rt req boardId apiKey (the token))"

text \<open>
  The script of the promotion page. \<open>match_token\<close> is
  \<open>hash.match(/#token=([^&]+)/)\<close>, giving the first group of the leftmost match.
\<close>

fun match_token :: "string \<Rightarrow> string option" where
  "match_token [] = None"
| "match_token (c # cs) =
     (if prefix ''#token='' (c # cs) \<and> takeWhile (\<lambda>x. x \<noteq> CHR ''&'') (drop 7 (c # cs)) \<noteq> []
      then Some (takeWhile (\<lambda>x. x \<noteq> CHR ''&'') (drop 7 (c # cs)))
      else match_token cs)"

text \<open>
  The address the script assigns to \<open>window.location.href\<close>, or \<open>None\<close> when it shows
  its error text instead. \<open>boardId\<close> is the value of the script's string literal, which
  is the interpolated board id when that has no quote, backslash or line end in it.
\<close>

definition promotion_script :: "string \<Rightarrow> string \<Rightarrow> string option" where
  "promotion_script boardId hash =
     (case match_token hash of
        Some token \<Rightarrow> Some (''/registerTrelloBoard?boardId='' @ boardId @ ''&token='' @ token)
      | None \<Rightarrow> None)"

section \<open>Well-typed payloads\<close>

text \<open>
  An event carries the nested objects of its tag. The predicates below name the
  properties each branch of a formatter reads through: an object that is read through
  has to be present.
\<close>

fun present :: "'a opt \<Rightarrow> bool" where
  "present (Val v) = True"
| "present _ = False"

definition commit_readable :: "gh_commit opt \<Rightarrow> bool" where
  "commit_readable c =
     (case c of
        Val k \<Rightarrow> present (commit_id k) \<and> present (commit_message k) \<and> present (commit_author k)
      | _ \<Rightarrow> False)"

definition gh_well_typed :: "string \<Rightarrow> gh_payload \<Rightarrow> bool" where
  "gh_well_typed eventType p =
     (present (p_repository p) \<and>
      (if eventType = ''push''
       then present (p_ref p) \<and>
            (case p_commits p of Val cs \<Rightarrow> list_all commit_readable (take 5 cs) | _ \<Rightarrow> False)
       else if eventType = ''pull_request'' then present (p_pull_request p)
       else if eventType = ''issues'' then present (p_issue p)
       else if eventType = ''issue_comment''
         then present (p_issue p) \<and>
              (case p_comment p of Val c \<Rightarrow> present (comment_user c) | _ \<Rightarrow> False)
       else True))"

definition card_action_types :: "string list" where
  "card_action_types =
     [''createCard'', ''updateCard'', ''commentCard'', ''addMemberToCard'',
      ''removeMemberFromCard'', ''addLabelToCard'']"

definition card_readable :: "tr_action \<Rightarrow> tr_data \<Rightarrow> bool" where
  "card_readable a d =
     (present (d_model d) \<and> (case a_data a of Val ad \<Rightarrow> present (ad_card ad) | _ \<Rightarrow> False))"

definition tr_well_typed :: "tr_data \<Rightarrow> bool" where
  "tr_well_typed d =
     (case d_action d of
        Val a \<Rightarrow>
          if truthy_str (a_type a) \<and> str (a_type a) \<in> set card_action_types then
            present (d_model d) \<and>
            (case a_data a of
               Val ad \<Rightarrow>
                 present (ad_card ad) \<and>
                 (if str (a_type a) = ''addMemberToCard'' \<or> str (a_type a) = ''removeMemberFromCard''
                  then present (ad_member ad) else True)
             | _ \<Rightarrow> False)
          else True
      | _ \<Rightarrow> True)"

section \<open>The next request of the promotion page\<close>

text \<open>
  How the hosting framework reads the parameter \<open>name\<close> of a request address that has
  no percent escapes, plus signs, brackets or repeated names: the text after \<open>?\<close> is
  cut at each \<open>&\<close>, and each piece at its first \<open>=\<close>.
\<close>

fun split_on :: "char \<Rightarrow> string \<Rightarrow> string list" where
  "split_on sep [] = [[]]"
| "split_on sep (c # cs) =
     (if c = sep then [] # split_on sep cs
      else (case split_on sep cs of p # ps \<Rightarrow> (c # p) # ps | [] \<Rightarrow> [[c]]))"

definition query_param :: "string \<Rightarrow> string \<Rightarrow> string option" where
  "query_param address name =
     map_of (map (\<lambda>p. (takeWhile (\<lambda>c. c \<noteq> CHR ''='') p,
                        drop 1 (dropWhile (\<lambda>c. c \<noteq> CHR ''='') p)))
               (split_on (CHR ''&'') (drop 1 (dropWhile (\<lambda>c. c \<noteq> CHR ''?'') address))))
       name"

section \<open>Example inputs\<close>

definition example_commits :: "(string \<times> string \<times> string opt \<times> string opt) list" where
  "example_commits =
     [(''1111111aaa'', ''one'', Val ''u1'', Val ''Ann''),
      (''2222222bbb'', ''two'', Val ''u2'', Val ''Ann''),
      (''3333333ccc'', ''three'', Val ''u3'', Val ''Bob''),
      (''4444444ddd'', ''four'', Val ''u4'', Val ''Bob''),
      (''5555555eee'', ''five'', Val ''u5'', Val ''Ann''),
      (''6666666fff'', ''six'', Val ''u6'', Val ''Ann''),
      (''7777777ggg'', ''seven'', Val ''u7'', Val ''Bob'')]"

definition example_push :: gh_payload where
  "example_push =
     \<lparr>p_sender = Undefined, p_ref = Val ''refs/heads/main'',
      p_repository = Val \<lparr>repo_name = Val ''test-repo''\<rparr>,
      p_compare = Undefined,
      p_commits = Val (map (\<lambda>(i, m, u, a).
                         Val \<lparr>commit_id = Val i, commit_message = Val m, commit_url = u,
                              commit_author = Val \<lparr>cauthor_name = a\<rparr>\<rparr>) example_commits),
      p_action = Undefined, p_pull_request = Undefined, p_issue = Undefined,
      p_comment = Undefined\<rparr>"

definition example_pull_request :: "string \<Rightarrow> gh_payload" where
  "example_pull_request b =
     \<lparr>p_sender = Val \<lparr>sender_login = Val ''testuser'',
                       sender_html_url = Val ''https://github.com/testuser'',
                       sender_avatar_url = Val ''https://avatars.githubusercontent.com/u/12345''\<rparr>,
      p_ref = Undefined,
      p_repository = Val \<lparr>repo_name = Val ''test-repo''\<rparr>,
      p_compare = Undefined, p_commits = Undefined, p_action = Val ''opened'',
      p_pull_request = Val \<lparr>pr_number = Val 123, pr_title = Val ''Test Pull Request'',
                              pr_html_url = Val ''https://github.com/user/test-repo/pull/123'',
                              pr_state = Val ''open'', pr_merged = Val False, pr_body = Val b\<rparr>,
      p_issue = Undefined, p_comment = Undefined\<rparr>"

definition example_issue :: "string \<Rightarrow> gh_payload" where
  "example_issue b =
     \<lparr>p_sender = Undefined, p_ref = Undefined,
      p_repository = Val \<lparr>repo_name = Val ''test-repo''\<rparr>,
      p_compare = Undefined, p_commits = Undefined, p_action = Val ''opened'',
      p_pull_request = Undefined,
      p_issue = Val \<lparr>issue_number = Val 7, issue_title = Val ''A bug'',
                       issue_html_url = Val ''https://github.com/user/test-repo/issues/7'',
                       issue_body = Val b\<rparr>,
      p_comment = Undefined\<rparr>"

definition example_issue_comment :: "string \<Rightarrow> gh_payload" where
  "example_issue_comment b =
     \<lparr>p_sender = Undefined, p_ref = Undefined,
      p_repository = Val \<lparr>repo_name = Val ''test-repo''\<rparr>,
      p_compare = Undefined, p_commits = Undefined, p_action = Val ''created'',
      p_pull_request = Undefined,
      p_issue = Val \<lparr>issue_number = Val 7, issue_title = Val ''A bug'',
                       issue_html_url = Val ''https://github.com/user/test-repo/issues/7'',
                       issue_body = Null\<rparr>,
      p_comment = Val \<lparr>comment_html_url = Val ''https://github.com/user/test-repo/issues/7#c1'',
                         comment_body = Val b,
                         comment_user = Val \<lparr>user_login = Val ''testuser''\<rparr>\<rparr>\<rparr>"

definition example_action_data :: tr_action_data where
  "example_action_data =
     \<lparr>ad_card = Val \<lparr>card_name = Val ''Test Card'', card_due = Undefined\<rparr>,
      ad_list = Undefined, ad_listBefore = Undefined, ad_listAfter = Undefined,
      ad_old = Undefined, ad_text = Undefined, ad_member = Undefined, ad_label = Undefined\<rparr>"

definition example_board_event :: "string \<Rightarrow> tr_action_data \<Rightarrow> tr_data" where
  "example_board_event t ad =
     \<lparr>d_action = Val \<lparr>a_type = Val t,
                        a_memberCreator = Val \<lparr>mc_fullName = Val ''Test User''\<rparr>,
                        a_data = Val ad\<rparr>,
      d_model = Val \<lparr>model_url = Val ''https://trello.com/b/def456/test-board''\<rparr>\<rparr>"

definition empty_payload :: gh_payload where
  "empty_payload =
     \<lparr>p_sender = Undefined, p_ref = Undefined, p_repository = Undefined,
      p_compare = Undefined, p_commits = Undefined, p_action = Undefined,
      p_pull_request = Undefined, p_issue = Undefined, p_comment = Undefined\<rparr>"

definition production_config :: config where
  "production_config =
     \<lparr>NODE_ENV = Some ''production'', DISCORD_WEBHOOK_URL_TEST = None,
      GITHUB_SECRET_TEST = None, TRELLO_API_KEY_TEST = None, TRELLO_API_URL_TEST = None,
      DISCORD_WEBHOOK_URL = ''https://discord.com/api/webhooks/1/abc'',
      GITHUB_SECRET = ''s3cret'', TRELLO_API_KEY = ''key123'',
      TRELLO_API_URL = ''https://api.trello.com/1''\<rparr>"

definition test_config :: config where
  "test_config =
     \<lparr>NODE_ENV = Some ''test'',
      DISCORD_WEBHOOK_URL_TEST = Some ''http://localhost:9/api/webhooks/1/abc'',
      GITHUB_SECRET_TEST = Some ''test-github-secret'', TRELLO_API_KEY_TEST = Some ''key123'',
      TRELLO_API_URL_TEST = None,
      DISCORD_WEBHOOK_URL = [], GITHUB_SECRET = [], TRELLO_API_KEY = [], TRELLO_API_URL = []\<rparr>"

text \<open>A chat endpoint that cannot be reached, and one that answers.\<close>

definition unreachable :: "string \<Rightarrow> envelope \<Rightarrow> axios_error + unit" where
  "unreachable u e =
     Inl \<lparr>ax_message = ''connect ECONNREFUSED'', ax_data_message = Undefined,
          ax_data_text = ''{}''\<rparr>"

definition reachable :: "string \<Rightarrow> envelope \<Rightarrow> axios_error + unit" where
  "reachable u e = Inr ()"

text \<open>Stand-ins for the digest (64 hexadecimal digits) and for \<open>JSON.stringify\<close>.\<close>

definition example_hmac :: "string \<Rightarrow> string \<Rightarrow> string" where
  "example_hmac secret text = replicate 64 (CHR ''0'')"

definition example_stringify :: "gh_payload opt \<Rightarrow> string" where
  "example_stringify b = ''{}''"

definition example_gh_request :: "(string \<Rightarrow> string option) \<Rightarrow> gh_request" where
  "example_gh_request hs = \<lparr>gh_method = ''POST'', gh_headers = hs, gh_body = Val example_push\<rparr>"

definition example_reg_request :: "string option \<Rightarrow> string option \<Rightarrow> string option \<Rightarrow> reg_request" where
  "example_reg_request boardId token referer =
     \<lparr>q_boardId = boardId, q_token = token, h_referer = referer,
      r_protocol = ''https'', r_hostname = ''example.web.app''\<rparr>"

text \<open>A board host that knows every board and accepts every registration.\<close>

definition example_runtime :: "unit reg_runtime" where
  "example_runtime =
     \<lparr>axios_get = (\<lambda>u ps. Inr \<lparr>board_name = Val ''Test Board'',
                                 board_id = Val ''5f0c1e2d3a4b5c6d7e8f9a0b''\<rparr>),
      axios_post = (\<lambda>u w ps. Inr ()),
      encodeURIComponent = (\<lambda>s. s),
      stringify_pretty = (\<lambda>w. ''{}''),
      reg_now = ''2025-01-01T00:00:00.000Z''\<rparr>"

section \<open>Basic lemmas\<close>

lemma bind_js_Inl [simp]: "bind_js (Inl e) f = Inl e"
  by (simp add: bind_js_def)

lemma bind_js_Inr [simp]: "bind_js (Inr v) f = f v"
  by (simp add: bind_js_def)

lemma rd_Inr_iff: "(rd x f = Inr y) = (\<exists>v. x = Val v \<and> y = f v)"
  by (cases x) auto

lemma bind_js_Inr_iff: "(bind_js m f = Inr y) = (\<exists>v. m = Inr v \<and> f v = Inr y)"
  by (cases m) auto

lemma present_iff: "present x = (\<exists>v. x = Val v)"
  by (cases x) auto

section \<open>Push events\<close>

lemma commit_field_Val:
  "commit_field (Val \<lparr>commit_id = Val i, commit_message = Val m, commit_url = u,
                      commit_author = Val \<lparr>cauthor_name = a\<rparr>\<rparr>) =
   Inr \<lparr>field_name = take 7 i,
        field_value = Val (''['' @ takeWhile (\<lambda>c. c \<noteq> CHR 0x0A) m @ '']('' @ str u @ '') - '' @
                           str a),
        field_inline = None\<rparr>"
  by (simp add: commit_field_def first_line_def)

lemma map_js_commit_field:
  "map_js commit_field
     (map (\<lambda>(i, m, u, a). Val \<lparr>commit_id = Val i, commit_message = Val m, commit_url = u,
                               commit_author = Val \<lparr>cauthor_name = a\<rparr>\<rparr>) ws) =
   Inr (map (\<lambda>(i, m, u, a).
          \<lparr>field_name = take 7 i,
           field_value = Val (''['' @ takeWhile (\<lambda>c. c \<noteq> CHR 0x0A) m @ '']('' @ str u @ '') - '' @
                              str a),
           field_inline = None\<rparr>) ws)"
  by (induction ws) (auto simp: commit_field_Val)

text \<open>
  Claim C5. A push whose payload carries the commits \<open>ws\<close> (each with its id, message,
  url and author name) gives a card whose fields are one field for each of the first
  five commits, named by the first seven characters of the id and valued
  \<open>[first line of the message](url) - author name\<close>, followed, when there are more than
  five commits, by one field that states the number of commits beyond five. The card
  has \<open>min N 5\<close> commit fields, and one more field exactly when \<open>N > 5\<close>.
\<close>

theorem push_lists_commits:
  assumes "p_ref p = Val r" and "p_repository p = Val repo"
    and "p_commits p =
           Val (map (\<lambda>(i, m, u, a). Val \<lparr>commit_id = Val i, commit_message = Val m,
                                         commit_url = u,
                                         commit_author = Val \<lparr>cauthor_name = a\<rparr>\<rparr>) ws)"
  shows "\<exists>e. formatGitHubMessage now (Val p) ''push'' = Inr e \<and>
           card_fields e =
             map (\<lambda>(i, m, u, a).
                    \<lparr>field_name = take 7 i,
                     field_value = Val (''['' @ takeWhile (\<lambda>c. c \<noteq> CHR 0x0A) m @ '']('' @
                                        str u @ '') - '' @ str a),
                     field_inline = None\<rparr>) (take 5 ws) @
             (if length ws > 5
              then [\<lparr>field_name = ''...'',
                     field_value = Val (show_nat (length ws - 5) @ '' more commits not shown''),
                     field_inline = None\<rparr>]
              else []) \<and>
           length (card_fields e) = min (length ws) 5 + (if length ws > 5 then 1 else 0)"
  using assms
  by (auto simp: formatGitHubMessage_def format_push_def Let_def github_embed_def
      more_commits_field_def take_map map_js_commit_field)

theorem push_lists_commits_witness:
  "\<exists>e. formatGitHubMessage ''2025-01-01T00:00:00.000Z'' (Val example_push) ''push'' = Inr e \<and>
       card_fields e =
         [\<lparr>field_name = ''1111111'', field_value = Val ''[one](u1) - Ann'', field_inline = None\<rparr>,
          \<lparr>field_name = ''2222222'', field_value = Val ''[two](u2) - Ann'', field_inline = None\<rparr>,
          \<lparr>field_name = ''3333333'', field_value = Val ''[three](u3) - Bob'', field_inline = None\<rparr>,
          \<lparr>field_name = ''4444444'', field_value = Val ''[four](u4) - Bob'', field_inline = None\<rparr>,
          \<lparr>field_name = ''5555555'', field_value = Val ''[five](u5) - Ann'', field_inline = None\<rparr>,
          \<lparr>field_name = ''...'', field_value = Val ''2 more commits not shown'',
            field_inline = None\<rparr>] \<and>
       length (card_fields e) = 6"
proof -
  have "p_ref example_push = Val ''refs/heads/main''"
    and "p_repository example_push = Val \<lparr>repo_name = Val ''test-repo''\<rparr>"
    and "p_commits example_push =
           Val (map (\<lambda>(i, m, u, a). Val \<lparr>commit_id = Val i, commit_message = Val m,
                                         commit_url = u,
                                         commit_author = Val \<lparr>cauthor_name = a\<rparr>\<rparr>)
                  example_commits)"
    by (simp_all add: example_push_def)
  from push_lists_commits [OF this, of "''2025-01-01T00:00:00.000Z''"]
  show ?thesis
    by (auto simp: example_commits_def show_nat.simps)
qed

section \<open>Truncation of long bodies\<close>

text \<open>
  Claim C6. At each of the four sites (pull request body, issue body, issue comment body
  and board comment text) the card of a payload whose body is the string \<open>b\<close> ends with
  the field rendered from the body; its value is the first 997 characters of \<open>b\<close>
  followed by three dots, 1000 characters in all, when \<open>b\<close> has more than 1000 characters,
  and \<open>b\<close> unchanged otherwise. An empty body is falsy and renders no field.
\<close>

theorem long_bodies_truncated:
  "(let v = (if length b > 1000 then take 997 b @ ''...'' else b);
        rendered = (\<lambda>label. if b = [] then []
                      else [\<lparr>field_name = label, field_value = Val v, field_inline = None\<rparr>])
    in
     (p_repository p1 = Val r1 \<longrightarrow> p_pull_request p1 = Val pr \<longrightarrow> pr_body pr = Val b \<longrightarrow>
        (\<exists>e. formatGitHubMessage now (Val p1) ''pull_request'' = Inr e \<and>
              card_fields e =
                [\<lparr>field_name = ''State'', field_value = pr_state pr, field_inline = Some True\<rparr>,
                 \<lparr>field_name = ''Merged'',
                  field_value = Val (if truthy_bool (pr_merged pr) then ''Yes'' else ''No''),
                  field_inline = Some True\<rparr>] @ rendered ''Description'')) \<and>
     (p_repository p2 = Val r2 \<longrightarrow> p_issue p2 = Val i2 \<longrightarrow> issue_body i2 = Val b \<longrightarrow>
        (\<exists>e. formatGitHubMessage now (Val p2) ''issues'' = Inr e \<and>
              card_fields e = rendered ''Description'')) \<and>
     (p_repository p3 = Val r3 \<longrightarrow> p_issue p3 = Val i3 \<longrightarrow> p_comment p3 = Val c3 \<longrightarrow>
      comment_user c3 = Val u3 \<longrightarrow> comment_body c3 = Val b \<longrightarrow>
        (\<exists>e. formatGitHubMessage now (Val p3) ''issue_comment'' = Inr e \<and>
              card_fields e = rendered ''Comment'')) \<and>
     (d_action d = Val a \<longrightarrow> a_type a = Val ''commentCard'' \<longrightarrow> a_data a = Val ad \<longrightarrow>
      ad_card ad = Val c \<longrightarrow> d_model d = Val m \<longrightarrow> ad_text ad = Val b \<longrightarrow>
        (\<exists>e. formatTrelloMessage now toLocaleString (Val d) = Inr (Some e) \<and>
              card_fields e = rendered ''Comment'')) \<and>
     (length b > 1000 \<longrightarrow> v = take 997 b @ ''...'' \<and> length v = 1000) \<and>
     (length b \<le> 1000 \<longrightarrow> v = b))"
proof -
  have pr: "p_repository p1 = Val r1 \<Longrightarrow> p_pull_request p1 = Val pr \<Longrightarrow> pr_body pr = Val b \<Longrightarrow>
      formatGitHubMessage now (Val p1) ''pull_request'' =
        format_pull_request (github_embed now (p_sender p1)) p1"
    by (simp add: formatGitHubMessage_def)
  have iss: "formatGitHubMessage now (Val p2) ''issues'' =
        format_issues (github_embed now (p_sender p2)) p2"
    by (simp add: formatGitHubMessage_def)
  have ic: "formatGitHubMessage now (Val p3) ''issue_comment'' =
        format_issue_comment (github_embed now (p_sender p3)) p3"
    by (simp add: formatGitHubMessage_def)
  have tr: "d_action d = Val a \<Longrightarrow> a_type a = Val ''commentCard'' \<Longrightarrow>
      formatTrelloMessage now toLocaleString (Val d) =
        map_sum (\<lambda>e. e) Some
          (format_commentCard (trello_embed now d)
             (case a_memberCreator a of Val mc \<Rightarrow> str (mc_fullName mc) | _ \<Rightarrow> ''Unknown'') a d)"
    by (simp add: formatTrelloMessage_def filteredTypes_def Let_def)
  show ?thesis
    unfolding Let_def
    by (intro conjI impI)
       (simp_all add: pr iss ic tr format_pull_request_def format_issues_def
         format_issue_comment_def format_commentCard_def card_link_def body_field_def
         truncate_body_def github_embed_def trello_embed_def)
qed

theorem long_bodies_truncated_witness:
  "(\<exists>e. formatGitHubMessage ''2025-01-01T00:00:00.000Z''
          (Val (example_pull_request (replicate 1001 (CHR ''x'')))) ''pull_request'' = Inr e \<and>
        card_fields e =
          [\<lparr>field_name = ''State'', field_value = Val ''open'', field_inline = Some True\<rparr>,
           \<lparr>field_name = ''Merged'', field_value = Val ''No'', field_inline = Some True\<rparr>,
           \<lparr>field_name = ''Description'',
            field_value = Val (replicate 997 (CHR ''x'') @ ''...''), field_inline = None\<rparr>]) \<and>
   (\<exists>e. formatGitHubMessage ''2025-01-01T00:00:00.000Z''
          (Val (example_issue (replicate 1001 (CHR ''x'')))) ''issues'' = Inr e \<and>
        card_fields e =
          [\<lparr>field_name = ''Description'',
            field_value = Val (replicate 997 (CHR ''x'') @ ''...''), field_inline = None\<rparr>]) \<and>
   (\<exists>e. formatGitHubMessage ''2025-01-01T00:00:00.000Z''
          (Val (example_issue_comment (replicate 1001 (CHR ''x'')))) ''issue_comment'' = Inr e \<and>
        card_fields e =
          [\<lparr>field_name = ''Comment'',
            field_value = Val (replicate 997 (CHR ''x'') @ ''...''), field_inline = None\<rparr>]) \<and>
   (\<exists>e. formatTrelloMessage ''2025-01-01T00:00:00.000Z'' (\<lambda>s. s)
          (Val (example_board_event ''commentCard''
                  (example_action_data\<lparr>ad_text := Val (replicate 1001 (CHR ''x''))\<rparr>))) =
          Inr (Some e) \<and>
        card_fields e =
          [\<lparr>field_name = ''Comment'',
            field_value = Val (replicate 997 (CHR ''x'') @ ''...''), field_inline = None\<rparr>]) \<and>
   length (replicate 997 (CHR ''x'') @ ''...'') = 1000"
  using long_bodies_truncated
    [where b = "replicate 1001 (CHR ''x'')" and now = "''2025-01-01T00:00:00.000Z''"
       and ?p1.0 = "example_pull_request (replicate 1001 (CHR ''x''))"
       and ?r1.0 = "\<lparr>repo_name = Val ''test-repo''\<rparr>"
       and pr = "\<lparr>pr_number = Val 123, pr_title = Val ''Test Pull Request'',
                  pr_html_url = Val ''https://github.com/user/test-repo/pull/123'',
                  pr_state = Val ''open'', pr_merged = Val False,
                  pr_body = Val (replicate 1001 (CHR ''x''))\<rparr>"
       and ?p2.0 = "example_issue (replicate 1001 (CHR ''x''))"
       and ?r2.0 = "\<lparr>repo_name = Val ''test-repo''\<rparr>"
       and ?i2.0 = "\<lparr>issue_number = Val 7, issue_title = Val ''A bug'',
                     issue_html_url = Val ''https://github.com/user/test-repo/issues/7'',
                     issue_body = Val (replicate 1001 (CHR ''x''))\<rparr>"
       and ?p3.0 = "example_issue_comment (replicate 1001 (CHR ''x''))"
       and ?r3.0 = "\<lparr>repo_name = Val ''test-repo''\<rparr>"
       and ?i3.0 = "\<lparr>issue_number = Val 7, issue_title = Val ''A bug'',
                     issue_html_url = Val ''https://github.com/user/test-repo/issues/7'',
                     issue_body = Null\<rparr>"
       and ?c3.0 = "\<lparr>comment_html_url = Val ''https://github.com/user/test-repo/issues/7#c1'',
                     comment_body = Val (replicate 1001 (CHR ''x'')),
                     comment_user = Val \<lparr>user_login = Val ''testuser''\<rparr>\<rparr>"
       and ?u3.0 = "\<lparr>user_login = Val ''testuser''\<rparr>"
       and toLocaleString = "\<lambda>s. s"
       and d = "example_board_event ''commentCard''
                  (example_action_data\<lparr>ad_text := Val (replicate 1001 (CHR ''x''))\<rparr>)"
       and a = "\<lparr>a_type = Val ''commentCard'',
                 a_memberCreator = Val \<lparr>mc_fullName = Val ''Test User''\<rparr>,
                 a_data = Val (example_action_data\<lparr>ad_text := Val (replicate 1001 (CHR ''x''))\<rparr>)\<rparr>"
       and ad = "example_action_data\<lparr>ad_text := Val (replicate 1001 (CHR ''x''))\<rparr>"
       and c = "\<lparr>card_name = Val ''Test Card'', card_due = Undefined\<rparr>"
       and m = "\<lparr>model_url = Val ''https://trello.com/b/def456/test-board''\<rparr>"]
  by (simp add: Let_def example_pull_request_def example_issue_def example_issue_comment_def
      example_board_event_def example_action_data_def)

section \<open>When formatGitHubMessage returns\<close>

lemma commit_field_ok: "(\<exists>f. commit_field c = Inr f) = commit_readable c"
  by (auto simp: commit_field_def commit_readable_def bind_js_Inr_iff rd_Inr_iff present_iff
      split: opt.splits)

lemma map_js_ok: "(\<exists>ys. map_js f xs = Inr ys) = list_all (\<lambda>x. \<exists>y. f x = Inr y) xs"
  by (induction xs) (auto simp: bind_js_Inr_iff)

lemma format_push_ok:
  "(\<exists>e. format_push e0 p = Inr e) =
   (present (p_repository p) \<and> present (p_ref p) \<and>
    (case p_commits p of Val cs \<Rightarrow> list_all commit_readable (take 5 cs) | _ \<Rightarrow> False))"
proof -
  have m: "\<And>cs. (\<exists>ys. map_js commit_field cs = Inr ys) = list_all commit_readable cs"
    by (simp add: map_js_ok commit_field_ok)
  show ?thesis
  proof (cases "p_commits p")
    case (Val cs)
    then show ?thesis
      using m [of "take 5 cs"]
      by (cases "take 5 cs = []")
         (auto simp: format_push_def Let_def bind_js_Inr_iff rd_Inr_iff present_iff)
  qed (auto simp: format_push_def Let_def bind_js_Inr_iff rd_Inr_iff present_iff)
qed

lemma format_pull_request_ok:
  "(\<exists>e. format_pull_request e0 p = Inr e) =
   (present (p_repository p) \<and> present (p_pull_request p))"
  by (cases "p_repository p"; cases "p_pull_request p") (simp_all add: format_pull_request_def)

lemma format_issues_ok:
  "(\<exists>e. format_issues e0 p = Inr e) = (present (p_repository p) \<and> present (p_issue p))"
  by (cases "p_repository p"; cases "p_issue p") (simp_all add: format_issues_def)

lemma format_issue_comment_ok:
  "(\<exists>e. format_issue_comment e0 p = Inr e) =
     (present (p_repository p) \<and> present (p_issue p) \<and>
      (case p_comment p of Val c \<Rightarrow> present (comment_user c) | _ \<Rightarrow> False))"
proof (cases "p_comment p")
  case (Val c)
  then show ?thesis
    by (cases "p_repository p"; cases "p_issue p"; cases "comment_user c")
       (simp_all add: format_issue_comment_def)
qed (cases "p_repository p"; cases "p_issue p"; simp add: format_issue_comment_def)+

lemma format_default_ok:
  "(\<exists>e. format_default e0 p t = Inr e) = present (p_repository p)"
  by (cases "p_repository p") (simp_all add: format_default_def)

text \<open>
  Claim C1, as stated, fails: a payload without a \<open>repository\<close> makes the default
  branch read \<open>name\<close> of \<open>undefined\<close>.
\<close>

theorem formatGitHubMessage_total_counterexample:
  "formatGitHubMessage ''2025-01-01T00:00:00.000Z'' (Val empty_payload) ''ping'' = Inl TypeError"
  by (simp add: formatGitHubMessage_def format_default_def empty_payload_def)

text \<open>
  Claim C1, amended. \<open>formatGitHubMessage\<close> returns a card exactly for the payloads that
  carry the objects its event type reads through: the repository, and for a push the
  ref and, in each of the first five commits, the id, the message and the author; for a
  pull request the pull request; for an issue the issue; for an issue comment the issue,
  the comment and its user. For an event type outside the four supported ones and a
  payload with a repository, the card is the default card, titled
  \<open>[repository name] event type event received\<close>.
\<close>

theorem formatGitHubMessage_returns_iff_well_typed:
  "((\<exists>e. formatGitHubMessage now (Val p) eventType = Inr e) = gh_well_typed eventType p) \<and>
   (eventType \<notin> set supportedEvents \<longrightarrow> p_repository p = Val repo \<longrightarrow>
      formatGitHubMessage now (Val p) eventType =
        Inr ((github_embed now (p_sender p))
              \<lparr>title := ''['' @ str (repo_name repo) @ ''] '' @ eventType @ '' event received'',
               description := ''Unsupported event type''\<rparr>))"
proof
  show "(\<exists>e. formatGitHubMessage now (Val p) eventType = Inr e) = gh_well_typed eventType p"
    unfolding formatGitHubMessage_def gh_well_typed_def
    by (simp add: Let_def format_push_ok format_pull_request_ok format_issues_ok
        format_issue_comment_ok format_default_ok)
  show "eventType \<notin> set supportedEvents \<longrightarrow> p_repository p = Val repo \<longrightarrow>
      formatGitHubMessage now (Val p) eventType =
        Inr ((github_embed now (p_sender p))
              \<lparr>title := ''['' @ str (repo_name repo) @ ''] '' @ eventType @ '' event received'',
               description := ''Unsupported event type''\<rparr>)"
    by (simp add: formatGitHubMessage_def supportedEvents_def format_default_def Let_def)
qed

theorem formatGitHubMessage_returns_iff_well_typed_witness:
  "gh_well_typed ''ping'' (example_issue []) \<and>
   ''ping'' \<notin> set supportedEvents \<and>
   (\<exists>e. formatGitHubMessage ''2025-01-01T00:00:00.000Z'' (Val (example_issue [])) ''ping'' = Inr e \<and>
        title e = ''[test-repo] ping event received'' \<and>
        description e = ''Unsupported event type'')"
  using formatGitHubMessage_returns_iff_well_typed
    [of "''2025-01-01T00:00:00.000Z''" "example_issue []" "''ping''"
        "\<lparr>repo_name = Val ''test-repo''\<rparr>"]
  by (simp add: example_issue_def supportedEvents_def gh_well_typed_def)

section \<open>When formatTrelloMessage returns\<close>

lemma card_link_ok: "(\<exists>l. card_link a d = Inr l) = card_readable a d"
  by (auto simp: card_link_def card_readable_def bind_js_Inr_iff rd_Inr_iff present_iff
      split: opt.splits)

lemma format_createCard_ok:
  "(\<exists>e. format_createCard e0 mn a d = Inr e) = card_readable a d"
  using card_link_ok [of a d]
  by (auto simp: format_createCard_def bind_js_Inr_iff rd_Inr_iff card_readable_def present_iff
      split: opt.splits)

lemma format_commentCard_ok:
  "(\<exists>e. format_commentCard e0 mn a d = Inr e) = card_readable a d"
  using card_link_ok [of a d]
  by (auto simp: format_commentCard_def bind_js_Inr_iff rd_Inr_iff card_readable_def present_iff
      split: opt.splits)

lemma format_addLabelToCard_ok:
  "(\<exists>e. format_addLabelToCard e0 mn a d = Inr e) = card_readable a d"
  using card_link_ok [of a d]
  by (auto simp: format_addLabelToCard_def bind_js_Inr_iff rd_Inr_iff card_readable_def present_iff
      split: opt.splits)

lemma format_memberCard_ok:
  "(\<exists>e. format_memberCard t v pr e0 mn a d = Inr e) =
   (card_readable a d \<and> (case a_data a of Val ad \<Rightarrow> present (ad_member ad) | _ \<Rightarrow> False))"
  using card_link_ok [of a d]
  by (auto simp: format_memberCard_def bind_js_Inr_iff rd_Inr_iff card_readable_def present_iff
      split: opt.splits)

lemma format_updateCard_ok:
  "(\<exists>e. format_updateCard loc e0 mn a d = Inr e) = card_readable a d"
proof (cases "a_data a")
  case (Val ad)
  show ?thesis
  proof (cases "card_link a d")
    case (Inl err)
    then have "\<not> card_readable a d"
      using card_link_ok [of a d] by simp
    then show ?thesis
      using Val Inl by (simp add: format_updateCard_def split: opt.splits prod.splits)
  next
    case (Inr l)
    then have r: "card_readable a d"
      using card_link_ok [of a d] by simp
    then obtain c where "ad_card ad = Val c"
      using Val by (auto simp: card_readable_def present_iff)
    then show ?thesis
      using Val Inr r by (simp add: format_updateCard_def split: opt.splits prod.splits)
  qed
qed (simp_all add: format_updateCard_def card_readable_def)

lemma in_card_action_types:
  "(t \<in> set card_action_types) =
   (t = ''createCard'' \<or> t = ''updateCard'' \<or> t = ''commentCard'' \<or> t = ''addMemberToCard'' \<or>
    t = ''removeMemberFromCard'' \<or> t = ''addLabelToCard'')"
  by (simp add: card_action_types_def)

lemma map_sum_Inr_iff: "(\<exists>r. map_sum f g m = Inr r) = (\<exists>e. m = Inr e)"
  by (cases m) auto

lemma formatTrelloMessage_ok:
  "(\<exists>r. formatTrelloMessage now loc (Val d) = Inr r) = tr_well_typed d"
proof (cases "d_action d")
  case (Val a)
  show ?thesis
  proof (cases "truthy_str (a_type a) \<and> str (a_type a) \<notin> set filteredTypes")
    case True
    then show ?thesis
      using Val
      by (simp add: formatTrelloMessage_def tr_well_typed_def Let_def map_sum_Inr_iff
        in_card_action_types format_createCard_ok format_updateCard_ok format_commentCard_ok
        format_memberCard_ok format_addLabelToCard_ok card_readable_def split: opt.splits)
  next
    case False
    then show ?thesis
      using Val
      by (auto simp: formatTrelloMessage_def tr_well_typed_def Let_def filteredTypes_def
        in_card_action_types)
  qed
qed (simp_all add: formatTrelloMessage_def tr_well_typed_def)

text \<open>
  Claim C2. \<open>formatTrelloMessage\<close> returns (a card, or null for a filtered type) for
  every well-typed payload, and throws for no other: a payload is well typed when the
  card branches find the objects they read through (the board model, the action data
  and its card, and the member of a member event). On the branches with an optional
  sub-field the rest of the card is the same whether the sub-field is there or not: an
  absent list, label or comment text only leaves its field out.
\<close>

theorem formatTrelloMessage_total_on_well_typed:
  "((\<exists>r. formatTrelloMessage now loc (Val d) = Inr r) = tr_well_typed d) \<and>
   (d_action d = Val a \<longrightarrow> a_data a = Val ad \<longrightarrow> ad_card ad = Val c \<longrightarrow> d_model d = Val m \<longrightarrow>
      (let mn = (case a_memberCreator a of Val mc \<Rightarrow> str (mc_fullName mc) | _ \<Rightarrow> ''Unknown'');
           link = ''['' @ str (card_name c) @ '']('' @ str (model_url m) @ '')''
       in
        (a_type a = Val ''createCard'' \<longrightarrow>
           formatTrelloMessage now loc (Val d) =
             Inr (Some ((trello_embed now d)
               \<lparr>title := ''Card Created'',
                description := mn @ '' created card '' @ link,
                card_fields :=
                  (case ad_list ad of
                     Val l \<Rightarrow> [\<lparr>field_name = ''List'', field_value = list_name l,
                                field_inline = Some True\<rparr>]
                   | _ \<Rightarrow> [])\<rparr>))) \<and>
        (a_type a = Val ''commentCard'' \<longrightarrow>
           formatTrelloMessage now loc (Val d) =
             Inr (Some ((trello_embed now d)
               \<lparr>title := ''Comment Added'',
                description := mn @ '' commented on card '' @ link,
                card_fields :=
                  (if truthy_str (ad_text ad)
                   then [\<lparr>field_name = ''Comment'',
                          field_value = Val (truncate_body (str (ad_text ad))),
                          field_inline = None\<rparr>]
                   else [])\<rparr>))) \<and>
        (a_type a = Val ''addLabelToCard'' \<longrightarrow>
           formatTrelloMessage now loc (Val d) =
             Inr (Some ((trello_embed now d)
               \<lparr>title := ''Label Added'',
                description := mn @ '' added label to card '' @ link,
                card_fields :=
                  (case ad_label ad of
                     Val l \<Rightarrow> [\<lparr>field_name = ''Label'',
                                field_value = or_str (label_name l) (label_color l),
                                field_inline = Some True\<rparr>]
                   | _ \<Rightarrow> [])\<rparr>)))))"
proof (intro conjI impI)
  show "(\<exists>r. formatTrelloMessage now loc (Val d) = Inr r) = tr_well_typed d"
    by (rule formatTrelloMessage_ok)
  assume h: "d_action d = Val a" "a_data a = Val ad" "ad_card ad = Val c" "d_model d = Val m"
  show "let mn = (case a_memberCreator a of Val mc \<Rightarrow> str (mc_fullName mc) | _ \<Rightarrow> ''Unknown'');
            link = ''['' @ str (card_name c) @ '']('' @ str (model_url m) @ '')''
        in
        (a_type a = Val ''createCard'' \<longrightarrow>
           formatTrelloMessage now loc (Val d) =
             Inr (Some ((trello_embed now d)
               \<lparr>title := ''Card Created'',
                description := mn @ '' created card '' @ link,
                card_fields :=
                  (case ad_list ad of
                     Val l \<Rightarrow> [\<lparr>field_name = ''List'', field_value = list_name l,
                                field_inline = Some True\<rparr>]
                   | _ \<Rightarrow> [])\<rparr>))) \<and>
        (a_type a = Val ''commentCard'' \<longrightarrow>
           formatTrelloMessage now loc (Val d) =
             Inr (Some ((trello_embed now d)
               \<lparr>title := ''Comment Added'',
                description := mn @ '' commented on card '' @ link,
                card_fields :=
                  (if truthy_str (ad_text ad)
                   then [\<lparr>field_name = ''Comment'',
                          field_value = Val (truncate_body (str (ad_text ad))),
                          field_inline = None\<rparr>]
                   else [])\<rparr>))) \<and>
        (a_type a = Val ''addLabelToCard'' \<longrightarrow>
           formatTrelloMessage now loc (Val d) =
             Inr (Some ((trello_embed now d)
               \<lparr>title := ''Label Added'',
                description := mn @ '' added label to card '' @ link,
                card_fields :=
                  (case ad_label ad of
                     Val l \<Rightarrow> [\<lparr>field_name = ''Label'',
                                field_value = or_str (label_name l) (label_color l),
                                field_inline = Some True\<rparr>]
                   | _ \<Rightarrow> [])\<rparr>)))"
    unfolding Let_def
    using h
    by (intro conjI impI)
       (simp_all add: formatTrelloMessage_def filteredTypes_def Let_def format_createCard_def
         format_commentCard_def format_addLabelToCard_def card_link_def body_field_def
         inline_field_def trello_embed_def split: opt.splits)
qed

theorem formatTrelloMessage_total_on_well_typed_witness:
  "tr_well_typed (example_board_event ''createCard'' example_action_data) \<and>
   (\<exists>e. formatTrelloMessage ''2025-01-01T00:00:00.000Z'' (\<lambda>s. s)
          (Val (example_board_event ''createCard'' example_action_data)) = Inr (Some e) \<and>
        title e = ''Card Created'' \<and>
        description e =
          ''Test User created card [Test Card](https://trello.com/b/def456/test-board)'' \<and>
        card_fields e = [])"
  using formatTrelloMessage_total_on_well_typed
    [of "''2025-01-01T00:00:00.000Z''" "\<lambda>s. s"
        "example_board_event ''createCard'' example_action_data"
        "\<lparr>a_type = Val ''createCard'',
          a_memberCreator = Val \<lparr>mc_fullName = Val ''Test User''\<rparr>,
          a_data = Val example_action_data\<rparr>"
        example_action_data
        "\<lparr>card_name = Val ''Test Card'', card_due = Undefined\<rparr>"
        "\<lparr>model_url = Val ''https://trello.com/b/def456/test-board''\<rparr>"]
  by (simp add: example_board_event_def example_action_data_def tr_well_typed_def
      card_action_types_def Let_def)

section \<open>Filtered board events\<close>

text \<open>
  Claim C7. For a board payload whose action type is one of the five filtered types,
  \<open>formatTrelloMessage\<close> returns null, the handler answers 200 and makes no outbound
  chat call, and so does the endpoint, whatever the method of the request and in test
  mode or not.
\<close>

theorem filtered_types_not_relayed:
  assumes "d_action d = Val a" and "a_type a = Val t" and "t \<in> set filteredTypes"
  shows "formatTrelloMessage now loc (Val d) = Inr None \<and>
         handleTrelloEvent cfg post now loc \<lparr>tr_method = m, tr_body = Val d\<rparr> webhookUrl =
           respond 200 (Send ''Trello event filtered (notification not sent)'') [] \<and>
         status (fst (trelloNotification cfg post now loc \<lparr>tr_method = m, tr_body = Val d\<rparr>)) = 200 \<and>
         snd (trelloNotification cfg post now loc \<lparr>tr_method = m, tr_body = Val d\<rparr>) = []"
proof -
  have t: "t \<noteq> []"
    using assms(3) by (auto simp: filteredTypes_def)
  have f: "formatTrelloMessage now loc (Val d) = Inr None"
    using assms t by (simp add: formatTrelloMessage_def Let_def)
  have h: "handleTrelloEvent cfg post now loc \<lparr>tr_method = m, tr_body = Val d\<rparr> u =
             respond 200 (Send ''Trello event filtered (notification not sent)'') []" for u
    using assms(1) f by (simp add: handleTrelloEvent_def)
  show ?thesis
    using f h by (simp add: trelloNotification_def respond_def)
qed

theorem filtered_types_not_relayed_witness:
  "formatTrelloMessage ''2025-01-01T00:00:00.000Z'' (\<lambda>s. s)
     (Val (example_board_event ''updateCheckItemStateOnCard'' example_action_data)) = Inr None \<and>
   handleTrelloEvent production_config reachable ''2025-01-01T00:00:00.000Z'' (\<lambda>s. s)
     \<lparr>tr_method = ''POST'',
      tr_body = Val (example_board_event ''updateCheckItemStateOnCard'' example_action_data)\<rparr>
     ''https://discord.com/api/webhooks/1/abc'' =
     respond 200 (Send ''Trello event filtered (notification not sent)'') []"
  using filtered_types_not_relayed
    [of "example_board_event ''updateCheckItemStateOnCard'' example_action_data"
        "\<lparr>a_type = Val ''updateCheckItemStateOnCard'',
          a_memberCreator = Val \<lparr>mc_fullName = Val ''Test User''\<rparr>,
          a_data = Val example_action_data\<rparr>"
        "''updateCheckItemStateOnCard''" "''2025-01-01T00:00:00.000Z''" "\<lambda>s. s"
        production_config reachable "''POST''" "''https://discord.com/api/webhooks/1/abc''"]
  by (simp add: example_board_event_def filteredTypes_def)

section \<open>A failed delivery in test mode\<close>

text \<open>
  Claim C8 says that in test mode a failed delivery is answered with a mock success
  object. The code does not get that far: building the object reads \<open>payload\<close>, which is
  out of scope in the \<open>catch\<close> block, so the function fails with a ReferenceError.
\<close>

theorem test_mode_failed_delivery_throws:
  assumes "isTestMode cfg" and "post webhookUrl \<lparr>embeds = [e]\<rparr> = Inl err"
  shows "sendDiscordMessage cfg post webhookUrl e = Inl ReferenceError"
  using assms by (simp add: sendDiscordMessage_def payload_in_catch_def)

theorem test_mode_failed_delivery_throws_witness:
  "isTestMode test_config \<and>
   sendDiscordMessage test_config unreachable ''http://localhost:9/api/webhooks/1/abc''
     (github_embed ''2025-01-01T00:00:00.000Z'' Undefined) = Inl ReferenceError"
proof -
  have t: "isTestMode test_config"
    by (simp add: isTestMode_def test_config_def)
  have u: "unreachable ''http://localhost:9/api/webhooks/1/abc''
             \<lparr>embeds = [github_embed ''2025-01-01T00:00:00.000Z'' Undefined]\<rparr> =
           Inl \<lparr>ax_message = ''connect ECONNREFUSED'', ax_data_message = Undefined,
                ax_data_text = ''{}''\<rparr>"
    by (simp add: unreachable_def)
  from test_mode_failed_delivery_throws
         [of test_config unreachable "''http://localhost:9/api/webhooks/1/abc''"
             "github_embed ''2025-01-01T00:00:00.000Z'' Undefined", OF t u] t
  show ?thesis
    by simp
qed

section \<open>The signature check\<close>

lemma missing_signature_forbidden:
  assumes "gh_method req = ''POST''" and "\<not> isTestMode cfg" and "secret \<noteq> []"
    and "gh_headers req ''x-hub-signature-256'' = None"
  shows "handleWebhook cfg post now hmac stringify req webhookUrl secret =
           Inr (respond 403 (Send ''Invalid signature'') [])"
  using assms by (simp add: handleWebhook_def verifyGitHubSignature_def)

lemma utf8_append: "utf8 (a @ b) = utf8 a @ utf8 b"
  by (simp add: utf8_def)

lemma length_utf8_unit: "length (utf8_unit c) = (if (of_char c :: nat) < 128 then 1 else 2)"
  by (simp add: utf8_unit_def)

lemma length_utf8_replicate:
  "length (utf8 (replicate n c)) = n * (if (of_char c :: nat) < 128 then 1 else 2)"
  by (induction n) (simp_all add: utf8_def length_utf8_unit)

lemma wrong_signature_forbidden:
  assumes "gh_method req = ''POST''" and "\<not> isTestMode cfg" and "secret \<noteq> []"
    and "gh_headers req ''x-hub-signature-256'' = Some sig"
    and "length (utf8 sig) = length (utf8 (''sha256='' @ hmac secret (stringify (gh_body req))))"
    and "utf8 sig \<noteq> utf8 (''sha256='' @ hmac secret (stringify (gh_body req)))"
  shows "handleWebhook cfg post now hmac stringify req webhookUrl secret =
           Inr (respond 403 (Send ''Invalid signature'') [])"
  using assms by (auto simp: handleWebhook_def verifyGitHubSignature_def timingSafeEqual_def)

lemma utf8_replicate_ascii:
  "(of_char c :: nat) < 128 \<Longrightarrow> utf8 (replicate n c) = replicate n (of_char c)"
  by (induction n) (simp_all add: utf8_def utf8_unit_def)

lemma utf8_Cons: "utf8 (c # cs) = utf8_unit c @ utf8 cs" and utf8_Nil: "utf8 [] = []"
  by (simp_all add: utf8_def)

text \<open>
  A header of 70 code units whose last one takes two bytes has the 71 bytes of the
  digest string: the comparison runs and the answer is 403.
\<close>

lemma two_byte_signature_forbidden:
  "handleWebhook production_config reachable ''2025-01-01T00:00:00.000Z'' example_hmac
     example_stringify
     (example_gh_request [''x-github-event'' \<mapsto> ''push'',
        ''x-hub-signature-256'' \<mapsto> ''sha256='' @ replicate 62 (CHR ''0'') @ [CHR 0xE9]])
     ''https://discord.com/api/webhooks/1/abc'' ''s3cret'' =
   Inr (respond 403 (Send ''Invalid signature'') [])"
proof -
  have r: "replicate 64 (48::nat) = replicate 62 48 @ [48, 48]"
    by (simp add: replicate_add [of 62 2, simplified] numeral_2_eq_2)
  have u: "utf8 [CHR 0xE9] = [195, 169]"
    by (simp add: utf8_def utf8_unit_def)
  show ?thesis
    by (rule wrong_signature_forbidden
          [where sig = "''sha256='' @ replicate 62 (CHR ''0'') @ [CHR 0xE9]"])
       (simp_all add: example_gh_request_def production_config_def isTestMode_def
         example_hmac_def utf8_append utf8_Cons utf8_Nil utf8_unit_def utf8_replicate_ascii r)
qed

text \<open>
  Claim C3 holds for an absent header and for a wrong signature with as many bytes as
  the digest string. For a signature whose UTF-8 byte length is any other, the
  comparison throws a RangeError, which leaves \<open>handleWebhook\<close>; the endpoint turns it
  into a 500, not a 403. No chat call is made.
\<close>

theorem signature_of_other_length_gives_500:
  assumes "gh_method req = ''POST''" and "\<not> isTestMode cfg" and "secret \<noteq> []"
    and "gh_headers req ''x-hub-signature-256'' = Some sig" and "sig \<noteq> []"
    and "length (utf8 sig) \<noteq>
         length (utf8 (''sha256='' @ hmac secret (stringify (gh_body req))))"
  shows "handleWebhook cfg post now hmac stringify req webhookUrl secret = Inl RangeError \<and>
         (getGithubSecret cfg = secret \<longrightarrow>
            githubNotification cfg post now hmac stringify req =
              respond 500 (Send ''Error processing webhook'') [])"
proof -
  have "handleWebhook cfg post now hmac stringify req u secret = Inl RangeError" for u
    using assms by (simp add: handleWebhook_def verifyGitHubSignature_def timingSafeEqual_def)
  then show ?thesis
    by (simp add: githubNotification_def)
qed

theorem signature_of_other_length_gives_500_witness:
  "handleWebhook production_config reachable ''2025-01-01T00:00:00.000Z'' example_hmac
     example_stringify
     (example_gh_request [''x-github-event'' \<mapsto> ''push'',
                          ''x-hub-signature-256'' \<mapsto> ''sha256=invalid_signature''])
     ''https://discord.com/api/webhooks/1/abc'' ''s3cret'' = Inl RangeError \<and>
   githubNotification production_config reachable ''2025-01-01T00:00:00.000Z'' example_hmac
     example_stringify
     (example_gh_request [''x-github-event'' \<mapsto> ''push'',
                          ''x-hub-signature-256'' \<mapsto> ''sha256=invalid_signature'']) =
     respond 500 (Send ''Error processing webhook'') []"
  using signature_of_other_length_gives_500
    [of "example_gh_request [''x-github-event'' \<mapsto> ''push'',
                             ''x-hub-signature-256'' \<mapsto> ''sha256=invalid_signature'']"
        production_config "''s3cret''" "''sha256=invalid_signature''" example_hmac
        example_stringify reachable "''2025-01-01T00:00:00.000Z''"
        "''https://discord.com/api/webhooks/1/abc''"]
  by (simp add: example_gh_request_def production_config_def isTestMode_def example_hmac_def
      getGithubSecret_def utf8_append length_utf8_replicate)
     (simp add: utf8_def utf8_unit_def)

section \<open>The event type header\<close>

text \<open>
  Claim C4, as stated, fails: with a secret configured outside test mode, an unsigned
  POST without the event type header is answered 403, since the signature is checked
  first.
\<close>

theorem missing_event_type_counterexample:
  "handleWebhook production_config reachable ''2025-01-01T00:00:00.000Z'' example_hmac
     example_stringify (example_gh_request Map.empty)
     ''https://discord.com/api/webhooks/1/abc'' ''s3cret'' =
   Inr (respond 403 (Send ''Invalid signature'') [])"
  by (simp add: handleWebhook_def verifyGitHubSignature_def example_gh_request_def
      production_config_def isTestMode_def)

text \<open>
  Claim C4, amended. A POST without the event type header (absent or empty) that passes
  the signature gate (no secret configured, or test mode, or a signature that verifies)
  is answered 400 and nothing is sent; one that the signature check rejects is answered
  403 before the header is looked at.
\<close>

theorem missing_event_type_after_signature_gate:
  assumes "gh_method req = ''POST''"
    and "gh_headers req ''x-github-event'' = None \<or> gh_headers req ''x-github-event'' = Some []"
  shows "(secret = [] \<or> isTestMode cfg \<or>
          verifyGitHubSignature hmac stringify req secret = Inr True \<longrightarrow>
            handleWebhook cfg post now hmac stringify req webhookUrl secret =
              Inr (respond 400 (Send ''No event type specified'') [])) \<and>
         (secret \<noteq> [] \<and> \<not> isTestMode cfg \<and>
          verifyGitHubSignature hmac stringify req secret = Inr False \<longrightarrow>
            handleWebhook cfg post now hmac stringify req webhookUrl secret =
              Inr (respond 403 (Send ''Invalid signature'') []))"
  using assms by (auto simp: handleWebhook_def)

theorem missing_event_type_after_signature_gate_witness:
  "handleWebhook production_config reachable ''2025-01-01T00:00:00.000Z'' example_hmac
     example_stringify (example_gh_request Map.empty)
     ''https://discord.com/api/webhooks/1/abc'' [] =
   Inr (respond 400 (Send ''No event type specified'') [])"
  using missing_event_type_after_signature_gate
    [of "example_gh_request Map.empty" "[]" production_config example_hmac example_stringify
        reachable "''2025-01-01T00:00:00.000Z''" "''https://discord.com/api/webhooks/1/abc''"]
  by (simp add: example_gh_request_def)

section \<open>The order of the registration checks\<close>

text \<open>
  Claim C9. A request without a board id (absent or empty) is answered 400 with a JSON
  error that starts with \<open>Missing required parameter\<close>, whatever its token and whether
  an API key is configured or not. A request with a board id and no configured API key
  is answered 500 with a JSON error, whatever its token and referer. Neither makes an
  outbound call, and a redirect is only ever issued for a request that has a board id
  while an API key is configured.
\<close>

theorem registration_checks_in_order:
  "(q_boardId req = None \<or> q_boardId req = Some [] \<longrightarrow>
      registerBoard cfg rt req =
        (\<lparr>status = 400,
          body = Json [(''error'', JString ''Missing required parameter: boardId''),
                       (''usage'', JString ''Add ?boardId=YOUR_BOARD_ID to the URL'')]\<rparr>, []) \<and>
      prefix ''Missing required parameter'' ''Missing required parameter: boardId'') \<and>
   (q_boardId req = Some b \<and> b \<noteq> [] \<and> getTrelloApiKey cfg = [] \<longrightarrow>
      registerBoard cfg rt req =
        (\<lparr>status = 500,
          body = Json [(''error'', JString ''Trello API key not configured''),
                       (''message'', JString
                          ''The server administrator needs to set up a Trello API key first.'')]\<rparr>,
         [])) \<and>
   (body (fst (registerBoard cfg rt req)) = Redirect u \<longrightarrow>
      (\<exists>b'. q_boardId req = Some b' \<and> b' \<noteq> []) \<and> getTrelloApiKey cfg \<noteq> [])"
proof (intro conjI impI)
  assume "q_boardId req = None \<or> q_boardId req = Some []"
  then show "registerBoard cfg rt req =
        (\<lparr>status = 400,
          body = Json [(''error'', JString ''Missing required parameter: boardId''),
                       (''usage'', JString ''Add ?boardId=YOUR_BOARD_ID to the URL'')]\<rparr>, [])"
    by (auto simp: registerBoard_def)
next
  show "prefix ''Missing required parameter'' ''Missing required parameter: boardId''"
    by simp
next
  assume "q_boardId req = Some b \<and> b \<noteq> [] \<and> getTrelloApiKey cfg = []"
  then show "registerBoard cfg rt req =
        (\<lparr>status = 500,
          body = Json [(''error'', JString ''Trello API key not configured''),
                       (''message'', JString
                          ''The server administrator needs to set up a Trello API key first.'')]\<rparr>,
         [])"
    by (simp add: registerBoard_def)
next
  assume r: "body (fst (registerBoard cfg rt req)) = Redirect u"
  show "\<exists>b'. q_boardId req = Some b' \<and> b' \<noteq> []"
  proof (cases "q_boardId req")
    case None
    with r show ?thesis by (simp add: registerBoard_def)
  next
    case (Some b')
    with r show ?thesis by (cases "b' = []") (simp_all add: registerBoard_def)
  qed
next
  assume r: "body (fst (registerBoard cfg rt req)) = Redirect u"
  show "getTrelloApiKey cfg \<noteq> []"
  proof
    assume k: "getTrelloApiKey cfg = []"
    show False
    proof (cases "q_boardId req")
      case None
      with r show ?thesis by (simp add: registerBoard_def)
    next
      case (Some b')
      with r k show ?thesis by (cases "b' = []") (simp_all add: registerBoard_def)
    qed
  qed
qed

theorem registration_checks_in_order_witness:
  "(registerBoard production_config example_runtime
      (example_reg_request None (Some ''t1'') None) :: unit reg_outcome) =
     (\<lparr>status = 400,
       body = Json [(''error'', JString ''Missing required parameter: boardId''),
                    (''usage'', JString ''Add ?boardId=YOUR_BOARD_ID to the URL'')]\<rparr>, []) \<and>
   (registerBoard (production_config\<lparr>TRELLO_API_KEY := []\<rparr>) example_runtime
      (example_reg_request (Some ''b1'') None None) :: unit reg_outcome) =
     (\<lparr>status = 500,
       body = Json [(''error'', JString ''Trello API key not configured''),
                    (''message'', JString
                       ''The server administrator needs to set up a Trello API key first.'')]\<rparr>,
      [])"
  using registration_checks_in_order
          [of "example_reg_request None (Some ''t1'') None" production_config example_runtime
              "[]" "[]"]
        registration_checks_in_order
          [of "example_reg_request (Some ''b1'') None None"
              "production_config\<lparr>TRELLO_API_KEY := []\<rparr>" example_runtime "''b1''" "[]"]
  by (auto simp: example_reg_request_def production_config_def getTrelloApiKey_def
      isTestMode_def)

section \<open>The board id across the promotion page\<close>

lemma promotion_page_served:
  assumes "q_boardId req = Some b" and "b \<noteq> []" and "getTrelloApiKey cfg \<noteq> []"
    and "q_token req = None" and "h_referer req = Some r"
    and "str_includes r ''trello.com/1/authorize''"
  shows "registerBoard cfg rt req = (\<lparr>status = 200, body = Send (fragment_page b)\<rparr>, [])"
proof -
  have "r \<noteq> []"
    using assms(6) by auto
  then show ?thesis
    using assms by (simp add: registerBoard_def Let_def)
qed

lemma split_on_not_Nil: "split_on sep xs \<noteq> []"
  by (induction xs) (auto split: list.splits)

lemma split_on_append:
  "sep \<notin> set xs \<Longrightarrow> split_on sep (xs @ sep # ys) = xs # split_on sep ys"
  by (induction xs) (auto split: list.splits)

text \<open>A board id without an ampersand does come back from the address the script builds.\<close>

lemma board_id_without_ampersand_kept:
  assumes "CHR ''&'' \<notin> set b" and "match_token hash = Some t"
  shows "\<exists>address. promotion_script b hash = Some address \<and>
           query_param address ''boardId'' = Some b"
proof -
  have s: "split_on (CHR ''&'') ((''boardId='' @ b) @ CHR ''&'' # (''token='' @ t)) =
             (''boardId='' @ b) # split_on (CHR ''&'') (''token='' @ t)"
    using assms(1) by (intro split_on_append) simp
  have "query_param (''/registerTrelloBoard?boardId='' @ b @ ''&token='' @ t) ''boardId'' = Some b"
    using s by (simp add: query_param_def)
  then show ?thesis
    using assms(2) by (simp add: promotion_script_def)
qed

text \<open>
  Claim C10 says that the promotion page re-issues the request with the board id it was
  given. The page does so only for a board id that needs no escaping: the id is put
  into the script and into the address as it is. For the board id \<open>a&b\<close> the page is
  served, its script goes to an address whose \<open>boardId\<close> parameter is \<open>a\<close>.
\<close>

theorem board_id_changed_by_promotion_page:
  "(registerBoard production_config example_runtime
     (example_reg_request (Some ''a&b'') None
        (Some ''https://trello.com/1/authorize?expiration=never'')) :: unit reg_outcome) =
     (\<lparr>status = 200, body = Send (fragment_page ''a&b'')\<rparr>, []) \<and>
   promotion_script ''a&b'' ''#token=t1'' = Some ''/registerTrelloBoard?boardId=a&b&token=t1'' \<and>
   query_param ''/registerTrelloBoard?boardId=a&b&token=t1'' ''boardId'' = Some ''a'' \<and>
   query_param ''/registerTrelloBoard?boardId=a&b&token=t1'' ''token'' = Some ''t1''"
proof (intro conjI)
  show "(registerBoard production_config example_runtime
     (example_reg_request (Some ''a&b'') None
        (Some ''https://trello.com/1/authorize?expiration=never'')) :: unit reg_outcome) =
     (\<lparr>status = 200, body = Send (fragment_page ''a&b'')\<rparr>, [])"
    by (rule promotion_page_served [where r = "''https://trello.com/1/authorize?expiration=never''"])
       (simp_all add: example_reg_request_def production_config_def getTrelloApiKey_def
         isTestMode_def)
  show "promotion_script ''a&b'' ''#token=t1'' = Some ''/registerTrelloBoard?boardId=a&b&token=t1''"
    by (simp add: promotion_script_def)
  show "query_param ''/registerTrelloBoard?boardId=a&b&token=t1'' ''boardId'' = Some ''a''"
    by (simp add: query_param_def)
  show "query_param ''/registerTrelloBoard?boardId=a&b&token=t1'' ''token'' = Some ''t1''"
    by (simp add: query_param_def)
qed

end
